theory Spec2Isabelle
  imports Complex_Main
begin

section \<open>Python strings\<close>

text \<open>
  A Python \<open>str\<close> is the list of its code points, so \<^const>\<open>length\<close> is \<open>len\<close> and list
  indices are string indices. A literal is written \<open>py ''mock''\<close>, a single character
  \<open>ch CHR ''.''\<close>.
\<close>

type_synonym str = "int list"

abbreviation py :: "string \<Rightarrow> str" where
  "py cs \<equiv> map of_char cs"

abbreviation ch :: "char \<Rightarrow> int" where
  "ch c \<equiv> of_char c"

text \<open>\<open>c.isspace()\<close>: the code points Python 3 treats as whitespace.\<close>

definition isspace :: "int \<Rightarrow> bool" where
  "isspace c = (c \<in> {9, 10, 11, 12, 13, 28, 29, 30, 31, 32, 133, 160, 5760, 8192, 8193, 8194,
     8195, 8196, 8197, 8198, 8199, 8200, 8201, 8202, 8232, 8233, 8239, 8287, 12288})"

text \<open>\<open>s.split()\<close>: the maximal runs of non-whitespace characters, in order.\<close>

function split_ws :: "str \<Rightarrow> str list" where
  "split_ws s =
     (let t = dropWhile isspace s
      in if t = [] then []
         else takeWhile (\<lambda>c. \<not> isspace c) t # split_ws (dropWhile (\<lambda>c. \<not> isspace c) t))"
  by pat_completeness auto
termination
proof (relation "measure length")
  fix s t :: str
  assume t: "t = dropWhile isspace s" and ne: "t \<noteq> []"
  from ne have "\<not> isspace (hd t)"
    unfolding t by (rule hd_dropWhile)
  with ne have "length (dropWhile (\<lambda>c. \<not> isspace c) t) < length t"
    by (cases t) (auto intro: le_imp_less_Suc length_dropWhile_le)
  also have "length t \<le> length s"
    unfolding t by (rule length_dropWhile_le)
  finally show "(dropWhile (\<lambda>c. \<not> isspace c) t, s) \<in> measure length"
    by simp
qed simp

declare split_ws.simps [simp del]

text \<open>\<open>' '.join(words)\<close>.\<close>

fun join_sp :: "str list \<Rightarrow> str" where
  "join_sp [] = []"
| "join_sp [w] = w"
| "join_sp (w # v # ws) = w @ ch CHR '' '' # join_sp (v # ws)"

text \<open>\<open>s.strip()\<close>: leading and trailing whitespace removed.\<close>

definition strip :: "str \<Rightarrow> str" where
  "strip s = rev (dropWhile isspace (rev (dropWhile isspace s)))"

text \<open>\<open>s.endswith(c)\<close> for a one-character suffix, and for a tuple of them.\<close>

definition endswith :: "str \<Rightarrow> int \<Rightarrow> bool" where
  "endswith s c = (s \<noteq> [] \<and> last s = c)"

definition endswith_any :: "str \<Rightarrow> int list \<Rightarrow> bool" where
  "endswith_any s cs = (\<exists>c \<in> set cs. endswith s c)"

text \<open>\<open>s.rfind(c)\<close>: the index of the last occurrence of \<open>c\<close>, or \<open>-1\<close>.\<close>

fun rfind_from :: "nat \<Rightarrow> str \<Rightarrow> int \<Rightarrow> int" where
  "rfind_from i [] c = -1"
| "rfind_from i (x # xs) c =
     (let r = rfind_from (Suc i) xs c
      in if r \<noteq> -1 then r else if x = c then int i else -1)"

definition rfind :: "str \<Rightarrow> int \<Rightarrow> int" where
  "rfind s c = rfind_from 0 s c"

text \<open>\<open>xs[:k]\<close>: a negative bound counts from the end.\<close>

definition slice_to :: "'a list \<Rightarrow> int \<Rightarrow> 'a list" where
  "slice_to xs k = (if 0 \<le> k then take (nat k) xs else take (length xs - nat (- k)) xs)"

text \<open>\<open>needle in s\<close> for strings: \<open>needle\<close> occurs as a contiguous part of \<open>s\<close>.\<close>

fun startswith :: "str \<Rightarrow> str \<Rightarrow> bool" where
  "startswith s [] = True"
| "startswith [] (c # cs) = False"
| "startswith (x # xs) (c # cs) = (x = c \<and> startswith xs cs)"

fun contains :: "str \<Rightarrow> str \<Rightarrow> bool" where
  "contains [] needle = (needle = [])"
| "contains (x # xs) needle = (startswith (x # xs) needle \<or> contains xs needle)"

text \<open>
  \<open>s.split('-')[0]\<close>: the part of \<open>s\<close> before its first hyphen, all of \<open>s\<close> when it
  has none.
\<close>

definition base_subtag :: "str \<Rightarrow> str" where
  "base_subtag s = takeWhile (\<lambda>c. c \<noteq> ch CHR ''-'') s"

text \<open>A value used as a condition: \<open>None\<close> and the empty string are false.\<close>

fun truthy :: "str option \<Rightarrow> bool" where
  "truthy None = False"
| "truthy (Some s) = (s \<noteq> [])"

section \<open>The float product \<open>len(answer) * 0.7\<close>\<close>

text \<open>
  Python computes \<open>len(answer) * 0.7\<close> in IEEE binary64: the length is converted to a
  double, multiplied by the double nearest to 0.7, which is \<open>3152519739159347 / 2^52\<close>,
  and the product is rounded to 53 significant bits, ties to even. The comparison of
  the integer \<open>last_period\<close> with that double is exact. So \<open>90 * 0.7\<close> is
  \<open>62.99999999999999\<close> and \<open>63 > 90 * 0.7\<close> holds, while \<open>7 > 10 * 0.7\<close> does not.
  \<open>round53 m\<close> rounds a non-negative integer to 53 significant bits;
  \<open>gt_len_times_0_7 p n\<close> is \<open>p > n * 0.7\<close>, both sides scaled by \<open>2^52\<close>.
\<close>

function bit_length :: "int \<Rightarrow> nat" where
  "bit_length n = (if n \<le> 0 then 0 else Suc (bit_length (n div 2)))"
  by pat_completeness auto
termination
  by (relation "measure nat") auto

declare bit_length.simps [simp del]

definition round53 :: "int \<Rightarrow> int" where
  "round53 m =
     (let b = bit_length m
      in if b \<le> 53 then m
         else let s = b - 53; q = m div 2 ^ s; r = m mod 2 ^ s; h = 2 ^ (s - 1)
              in (if h < r \<or> (r = h \<and> odd q) then q + 1 else q) * 2 ^ s)"

definition gt_len_times_0_7 :: "int \<Rightarrow> nat \<Rightarrow> bool" where
  "gt_len_times_0_7 p n = (round53 (round53 (int n) * 3152519739159347) < p * 2 ^ 52)"

section \<open>Schemas and settings\<close>

text \<open>
  The pydantic models of \<open>models/schemas.py\<close> and the fields of \<open>config/settings.py\<close> that
  the services and the pipeline read. Wall-clock fields (\<open>processing_time\<close>,
  \<open>start_time\<close>, \<open>timestamp\<close>) are left out. A confidence is a rational number.
\<close>

datatype json = JStr str | JInt int | JBool bool

record TranscriptionRequest =
  audio_data :: str
  language :: "str option"
  provider :: str

record TranscriptionResponse =
  "text" :: str
  confidence :: rat
  language :: str
  provider :: str

record TranslationRequest =
  "text" :: str
  source_language :: str
  target_language :: str
  provider :: str

record TranslationResponse =
  original_text :: str
  translated_text :: str
  source_language :: str
  target_language :: str
  confidence :: rat
  provider :: str

record AnswerGenerationRequest =
  question :: str
  "context" :: "str option"
  style :: str
  max_length :: int
  language :: str
  provider :: str

record AnswerGenerationResponse =
  question :: str
  answer :: str
  confidence :: rat
  provider :: str
  metadata :: "(str \<times> json) list"

record InterviewSession =
  session_id :: str
  source_language :: str
  target_language :: str
  is_active :: bool

record ConfigUpdate =
  source_language :: "str option"
  target_language :: "str option"
  stt_provider :: "str option"
  translation_provider :: "str option"
  answer_provider :: "str option"
  answer_style :: "str option"

record Settings =
  openai_api_key :: "str option"
  google_translate_api_key :: "str option"
  google_speech_api_key :: "str option"
  deepl_api_key :: "str option"
  anthropic_api_key :: "str option"
  default_source_language :: str
  default_target_language :: str
  translation_provider :: str
  stt_provider :: str
  answer_max_length :: int
  answer_style :: str

section \<open>Provider adapters\<close>

text \<open>
  An adapter is a call to an external service. Its outcome may change from one call to
  the next, so it is a function of the number of adapter calls made before it (the length
  of the call trace) and of the request; \<open>Inl e\<close> is a raised exception with message
  \<open>e\<close>, \<open>Inr d\<close> the returned dict. In a dict an optional key is an \<open>option\<close>; the
  \<open>language\<close> of a transcription can also be present and \<open>None\<close>.
\<close>

datatype capability = STT | Translation | Answer

type_synonym trace = "(capability \<times> str) list"

record STTResult =
  "text" :: str
  confidence :: "rat option"
  language :: "str option option"

record TranslationResult =
  translated_text :: str
  source_language :: "str option"
  confidence :: "rat option"

record AIResult =
  answer :: str
  confidence :: "rat option"

record Prompt =
  system :: str
  user :: str

type_synonym STTProvider = "nat \<Rightarrow> TranscriptionRequest \<Rightarrow> str + STTResult"

type_synonym TranslationProvider = "nat \<Rightarrow> TranslationRequest \<Rightarrow> str + TranslationResult"

type_synonym AIProvider = "nat \<Rightarrow> Prompt \<Rightarrow> AnswerGenerationRequest \<Rightarrow> str + AIResult"

text \<open>
  What \<open>_initialize_providers\<close> finds at startup: whether each optional module was
  imported, and what each adapter constructor returns (\<open>None\<close> when it raises). The
  string methods \<open>upper\<close> and \<open>lower\<close> of the Python runtime, which the mock adapters
  call, are parameters as well.
\<close>

record Environment =
  openai_module :: bool
  whisper_module :: bool
  speech_module :: bool
  translate_module :: bool
  DeepLTranslator_class :: bool
  googletrans_module :: bool
  anthropic_module :: bool
  OpenAISTTProvider :: "STTProvider option"
  GoogleSTTProvider :: "STTProvider option"
  LocalWhisperProvider :: "STTProvider option"
  GoogleTranslateProvider :: "TranslationProvider option"
  DeepLProvider :: "TranslationProvider option"
  GoogleTranslateFreeProvider :: "TranslationProvider option"
  OpenAIProvider :: "AIProvider option"
  AnthropicProvider :: "AIProvider option"
  str_upper :: "str \<Rightarrow> str"
  str_lower :: "str \<Rightarrow> str"

text \<open>
  One registration block of \<open>_initialize_providers\<close>:
  \<open>if cond: try: self.providers[name] = Adapter() except Exception: warn\<close>.
\<close>

definition register :: "bool \<Rightarrow> 'p option \<Rightarrow> str \<Rightarrow> (str \<times> 'p) list \<Rightarrow> (str \<times> 'p) list" where
  "register cond adapter name providers =
     (if cond then (case adapter of Some p \<Rightarrow> providers @ [(name, p)] | None \<Rightarrow> providers)
      else providers)"

datatype exn = ValueError str | Exception str

fun str_of_exn :: "exn \<Rightarrow> str" where
  "str_of_exn (ValueError m) = m"
| "str_of_exn (Exception m) = m"

section \<open>Speech-to-text service\<close>

definition MockSTTProvider :: STTProvider where
  "MockSTTProvider t request =
     Inr \<lparr>STTResult.text = py ''This is a mock transcription for testing purposes.'',
          STTResult.confidence = Some 0.95,
          STTResult.language =
            Some (if TranscriptionRequest.language request \<noteq> Some (py ''auto'')
                  then TranscriptionRequest.language request else Some (py ''en''))\<rparr>"

definition speech_initialize_providers ::
    "Settings \<Rightarrow> Environment \<Rightarrow> (str \<times> STTProvider) list" where
  "speech_initialize_providers settings env =
     (let providers = [];
          providers = register (truthy (openai_api_key settings) \<and> openai_module env)
                        (OpenAISTTProvider env) (py ''openai'') providers;
          providers = register (truthy (google_speech_api_key settings) \<and> speech_module env)
                        (GoogleSTTProvider env) (py ''google'') providers;
          providers = register (whisper_module env)
                        (LocalWhisperProvider env) (py ''local'') providers
      in case providers of [] \<Rightarrow> [(py ''mock'', MockSTTProvider)] | _ \<Rightarrow> providers)"

text \<open>
  The body of a \<open>try\<close> block of the service: the adapter call and the construction of
  the \<open>TranscriptionResponse\<close>. \<open>None\<close> is any exception: the adapter raised, or the
  response did not validate because its \<open>language\<close> would be \<open>None\<close>.
\<close>

definition speech_attempt ::
    "STTProvider \<Rightarrow> nat \<Rightarrow> TranscriptionRequest \<Rightarrow> rat \<Rightarrow> TranscriptionResponse option" where
  "speech_attempt p t request default_confidence =
     (case p t request of
        Inl e \<Rightarrow> None
      | Inr result \<Rightarrow>
          (case (case STTResult.language result of
                   None \<Rightarrow> TranscriptionRequest.language request | Some v \<Rightarrow> v) of
             None \<Rightarrow> None
           | Some l \<Rightarrow>
               Some \<lparr>TranscriptionResponse.text = STTResult.text result,
                     TranscriptionResponse.confidence =
                       (case STTResult.confidence result of
                          None \<Rightarrow> default_confidence | Some c \<Rightarrow> c),
                     TranscriptionResponse.language = l,
                     TranscriptionResponse.provider = TranscriptionRequest.provider request\<rparr>))"

text \<open>
  The \<open>for\<close> loop of \<open>SpeechToTextService._try_fallback\<close> over the rest of
  \<open>fallback_order\<close>. The request is the caller's object: the loop assigns
  \<open>request.provider\<close>, so the request is returned with the result.
\<close>

fun speech_fallback_loop ::
    "(str \<times> STTProvider) list \<Rightarrow> trace \<Rightarrow> TranscriptionRequest \<Rightarrow> str list \<Rightarrow>
     (exn + TranscriptionResponse) \<times> TranscriptionRequest \<times> trace" where
  "speech_fallback_loop providers tr request [] =
     (Inl (Exception (py ''All STT providers failed'')), request, tr)"
| "speech_fallback_loop providers tr request (provider_name # rest) =
     (case map_of providers provider_name of
        None \<Rightarrow> speech_fallback_loop providers tr request rest
      | Some p \<Rightarrow>
          if provider_name = TranscriptionRequest.provider request
          then speech_fallback_loop providers tr request rest
          else let request = request\<lparr>TranscriptionRequest.provider := provider_name\<rparr>;
                   tr' = tr @ [(STT, provider_name)]
               in case speech_attempt p (length tr) request 0.8 of
                    Some response \<Rightarrow> (Inr response, request, tr')
                  | None \<Rightarrow> speech_fallback_loop providers tr' request rest)"

definition speech_try_fallback ::
    "(str \<times> STTProvider) list \<Rightarrow> trace \<Rightarrow> TranscriptionRequest \<Rightarrow>
     (exn + TranscriptionResponse) \<times> TranscriptionRequest \<times> trace" where
  "speech_try_fallback providers tr request =
     speech_fallback_loop providers tr request [py ''local'', py ''openai'', py ''google'']"

definition transcribe ::
    "(str \<times> STTProvider) list \<Rightarrow> trace \<Rightarrow> TranscriptionRequest \<Rightarrow>
     (exn + TranscriptionResponse) \<times> TranscriptionRequest \<times> trace" where
  "transcribe providers tr request =
     (case map_of providers (TranscriptionRequest.provider request) of
        None \<Rightarrow>
          (Inl (ValueError (py ''Provider '' @ TranscriptionRequest.provider request @
                            py '' not available'')), request, tr)
      | Some p \<Rightarrow>
          let tr' = tr @ [(STT, TranscriptionRequest.provider request)]
          in case speech_attempt p (length tr) request 0.9 of
               Some response \<Rightarrow> (Inr response, request, tr')
             | None \<Rightarrow> speech_try_fallback providers tr' request)"

section \<open>Translation service\<close>

definition MockTranslationProvider :: "(str \<Rightarrow> str) \<Rightarrow> TranslationProvider" where
  "MockTranslationProvider upper t request =
     (let translated =
            (if TranslationRequest.target_language request = py ''zh''
             then [91, 20013, 25991, 32763, 35793, 93, 32] @ TranslationRequest.text request
             else if TranslationRequest.target_language request = py ''en''
             then py ''[English Translation] '' @ TranslationRequest.text request
             else py ''['' @ upper (TranslationRequest.target_language request) @
                  py '' Translation] '' @ TranslationRequest.text request)
      in Inr \<lparr>TranslationResult.translated_text = translated,
              TranslationResult.source_language = Some (TranslationRequest.source_language request),
              TranslationResult.confidence = Some 0.90\<rparr>)"

definition translation_initialize_providers ::
    "Settings \<Rightarrow> Environment \<Rightarrow> (str \<times> TranslationProvider) list" where
  "translation_initialize_providers settings env =
     (let providers = [];
          providers = register (truthy (google_translate_api_key settings) \<and> translate_module env)
                        (GoogleTranslateProvider env) (py ''google'') providers;
          providers = register (truthy (deepl_api_key settings) \<and> DeepLTranslator_class env)
                        (DeepLProvider env) (py ''deepl'') providers;
          providers = register (googletrans_module env)
                        (GoogleTranslateFreeProvider env) (py ''google_free'') providers
      in case providers of
           [] \<Rightarrow> [(py ''mock'', MockTranslationProvider (str_upper env))]
         | _ \<Rightarrow> providers)"

definition translation_attempt ::
    "TranslationProvider \<Rightarrow> nat \<Rightarrow> TranslationRequest \<Rightarrow> rat \<Rightarrow> TranslationResponse option" where
  "translation_attempt p t request default_confidence =
     (case p t request of
        Inl e \<Rightarrow> None
      | Inr result \<Rightarrow>
          Some \<lparr>TranslationResponse.original_text = TranslationRequest.text request,
                TranslationResponse.translated_text = TranslationResult.translated_text result,
                TranslationResponse.source_language =
                  (case TranslationResult.source_language result of
                     None \<Rightarrow> TranslationRequest.source_language request | Some l \<Rightarrow> l),
                TranslationResponse.target_language = TranslationRequest.target_language request,
                TranslationResponse.confidence =
                  (case TranslationResult.confidence result of
                     None \<Rightarrow> default_confidence | Some c \<Rightarrow> c),
                TranslationResponse.provider = TranslationRequest.provider request\<rparr>)"

fun translation_fallback_loop ::
    "(str \<times> TranslationProvider) list \<Rightarrow> trace \<Rightarrow> TranslationRequest \<Rightarrow> str list \<Rightarrow>
     (exn + TranslationResponse) \<times> TranslationRequest \<times> trace" where
  "translation_fallback_loop providers tr request [] =
     (Inl (Exception (py ''All translation providers failed'')), request, tr)"
| "translation_fallback_loop providers tr request (provider_name # rest) =
     (case map_of providers provider_name of
        None \<Rightarrow> translation_fallback_loop providers tr request rest
      | Some p \<Rightarrow>
          if provider_name = TranslationRequest.provider request
          then translation_fallback_loop providers tr request rest
          else let request = request\<lparr>TranslationRequest.provider := provider_name\<rparr>;
                   tr' = tr @ [(Translation, provider_name)]
               in case translation_attempt p (length tr) request 0.8 of
                    Some response \<Rightarrow> (Inr response, request, tr')
                  | None \<Rightarrow> translation_fallback_loop providers tr' request rest)"

definition translation_try_fallback ::
    "(str \<times> TranslationProvider) list \<Rightarrow> trace \<Rightarrow> TranslationRequest \<Rightarrow>
     (exn + TranslationResponse) \<times> TranslationRequest \<times> trace" where
  "translation_try_fallback providers tr request =
     translation_fallback_loop providers tr request
       [py ''google_free'', py ''google'', py ''deepl'']"

definition translate ::
    "(str \<times> TranslationProvider) list \<Rightarrow> trace \<Rightarrow> TranslationRequest \<Rightarrow>
     (exn + TranslationResponse) \<times> TranslationRequest \<times> trace" where
  "translate providers tr request =
     (case map_of providers (TranslationRequest.provider request) of
        None \<Rightarrow>
          (Inl (ValueError (py ''Provider '' @ TranslationRequest.provider request @
                            py '' not available'')), request, tr)
      | Some p \<Rightarrow>
          let tr' = tr @ [(Translation, TranslationRequest.provider request)]
          in case translation_attempt p (length tr) request 0.9 of
               Some response \<Rightarrow> (Inr response, request, tr')
             | None \<Rightarrow> translation_try_fallback providers tr' request)"

text \<open>The module function \<open>is_translation_needed\<close> of \<open>translation_service.py\<close>.\<close>

definition is_translation_needed :: "str \<Rightarrow> str \<Rightarrow> bool" where
  "is_translation_needed source_lang target_lang =
     (if source_lang = target_lang then False
      else let source_base = base_subtag source_lang;
               target_base = base_subtag target_lang
           in source_base \<noteq> target_base)"

section \<open>Answer generation service\<close>

text \<open>
  \<open>AIAnswerService._post_process_answer(answer, request)\<close>. Of the request only
  \<open>max_length\<close> is read, an \<open>int\<close> that nothing validates, so it is the second argument
  (\<open>max_len\<close>; \<open>answer0\<close> is the argument \<open>answer\<close> before its first reassignment).
\<close>

definition post_process_answer :: "str \<Rightarrow> int \<Rightarrow> str" where
  "post_process_answer answer0 max_len =
     (let answer = join_sp (split_ws answer0);
          answer =
            (if int (length (split_ws answer)) > max_len then
               let words = slice_to (split_ws answer) max_len;
                   answer = join_sp words
               in if \<not> endswith answer (ch CHR ''.'') then
                    let last_period = rfind answer (ch CHR ''.'')
                    in if gt_len_times_0_7 last_period (length answer)
                       then slice_to answer (last_period + 1)
                       else answer
                  else answer
             else answer);
          answer =
            (if \<not> endswith_any answer [ch CHR ''.'', ch CHR ''!'', ch CHR ''?'']
             then answer @ [ch CHR ''.''] else answer)
      in strip answer)"

text \<open>
  The prompt table built by \<open>_load_prompts\<close> has the keys \<open>professional\<close>, \<open>academic\<close> and
  \<open>casual\<close>. The texts are not spelled out: a template is its \<open>system\<close> text and its
  \<open>user\<close> text as a function of the question and the context that \<open>str.format\<close> fills in.
\<close>

record PromptTemplate =
  system :: str
  user :: "str \<Rightarrow> str \<Rightarrow> str"

record Prompts =
  professional :: PromptTemplate
  academic :: PromptTemplate
  casual :: PromptTemplate

record AIAnswerService =
  providers :: "(str \<times> AIProvider) list"
  prompts :: Prompts

text \<open>\<open>self.prompts.get(request.style, self.prompts['professional'])\<close>.\<close>

definition prompts_get :: "Prompts \<Rightarrow> str \<Rightarrow> PromptTemplate" where
  "prompts_get table key =
     (if key = py ''professional'' then professional table
      else if key = py ''academic'' then academic table
      else if key = py ''casual'' then casual table
      else professional table)"

definition format_prompt :: "PromptTemplate \<Rightarrow> AnswerGenerationRequest \<Rightarrow> Prompt" where
  "format_prompt prompt_template request =
     (let context = (case AnswerGenerationRequest.context request of
                       None \<Rightarrow> py ''This is a general interview question.''
                     | Some c \<Rightarrow> if c = [] then py ''This is a general interview question.'' else c)
      in \<lparr>Prompt.system = PromptTemplate.system prompt_template,
          Prompt.user = PromptTemplate.user prompt_template
                          (AnswerGenerationRequest.question request) context\<rparr>)"

definition MockAIProvider :: "(str \<Rightarrow> str) \<Rightarrow> AIProvider" where
  "MockAIProvider lower t prompt request =
     (let question = lower (AnswerGenerationRequest.question request);
          answer =
            (if contains question (py ''tell me about yourself'') \<or>
                contains question (py ''introduce yourself'')
             then py ''I am a dedicated professional with strong communication skills and a passion for continuous learning. I believe my experience and enthusiasm make me a great fit for this role.''
             else if contains question (py ''why do you want'')
             then py ''I am excited about this opportunity because it aligns perfectly with my career goals and allows me to contribute my skills while growing professionally.''
             else if contains question (py ''strength'')
             then py ''One of my key strengths is my ability to work collaboratively while maintaining attention to detail. I consistently deliver high-quality results under pressure.''
             else if contains question (py ''weakness'')
             then py ''I sometimes focus too much on perfecting details, but I've learned to balance thoroughness with meeting deadlines effectively.''
             else if contains question (py ''experience'')
             then py ''In my previous roles, I have successfully managed projects and collaborated with diverse teams to achieve challenging goals and deliver excellent results.''
             else py ''That's an excellent question. Based on my experience and understanding of the role, I believe the key is to approach challenges systematically while maintaining clear communication with stakeholders.'')
      in Inr \<lparr>AIResult.answer = answer, AIResult.confidence = Some 0.85\<rparr>)"

definition ai_initialize_providers :: "Settings \<Rightarrow> Environment \<Rightarrow> (str \<times> AIProvider) list" where
  "ai_initialize_providers settings env =
     (let providers = [];
          providers = register (truthy (openai_api_key settings) \<and> openai_module env)
                        (OpenAIProvider env) (py ''openai'') providers;
          providers = register (truthy (anthropic_api_key settings) \<and> anthropic_module env)
                        (AnthropicProvider env) (py ''anthropic'') providers
      in case providers of
           [] \<Rightarrow> [(py ''mock'', MockAIProvider (str_lower env))]
         | _ \<Rightarrow> providers)"

text \<open>
  The common part of the two \<open>try\<close> blocks: format the prompt, call the adapter,
  post-process its answer. \<open>None\<close> is a raised exception.
\<close>

definition ai_call ::
    "Prompts \<Rightarrow> AIProvider \<Rightarrow> nat \<Rightarrow> AnswerGenerationRequest \<Rightarrow> (AIResult \<times> str) option" where
  "ai_call table p t request =
     (let prompt_template = prompts_get table (AnswerGenerationRequest.style request);
          formatted_prompt = format_prompt prompt_template request
      in case p t formatted_prompt request of
           Inl e \<Rightarrow> None
         | Inr result \<Rightarrow>
             Some (result, post_process_answer (AIResult.answer result)
                             (AnswerGenerationRequest.max_length request)))"

fun ai_fallback_loop ::
    "AIAnswerService \<Rightarrow> trace \<Rightarrow> AnswerGenerationRequest \<Rightarrow> str list \<Rightarrow>
     (exn + AnswerGenerationResponse) \<times> AnswerGenerationRequest \<times> trace" where
  "ai_fallback_loop service tr request [] =
     (Inl (Exception (py ''All AI providers failed'')), request, tr)"
| "ai_fallback_loop service tr request (provider_name # rest) =
     (case map_of (providers service) provider_name of
        None \<Rightarrow> ai_fallback_loop service tr request rest
      | Some p \<Rightarrow>
          if provider_name = AnswerGenerationRequest.provider request
          then ai_fallback_loop service tr request rest
          else let request = request\<lparr>AnswerGenerationRequest.provider := provider_name\<rparr>;
                   tr' = tr @ [(Answer, provider_name)]
               in case ai_call (prompts service) p (length tr) request of
                    Some (result, processed_answer) \<Rightarrow>
                      (Inr \<lparr>AnswerGenerationResponse.question =
                               AnswerGenerationRequest.question request,
                             AnswerGenerationResponse.answer = processed_answer,
                             AnswerGenerationResponse.confidence =
                               (case AIResult.confidence result of None \<Rightarrow> 0.8 | Some c \<Rightarrow> c),
                             AnswerGenerationResponse.provider = provider_name,
                             AnswerGenerationResponse.metadata =
                               [(py ''fallback'', JBool True),
                                (py ''style'', JStr (AnswerGenerationRequest.style request))]\<rparr>,
                       request, tr')
                  | None \<Rightarrow> ai_fallback_loop service tr' request rest)"

definition ai_try_fallback ::
    "AIAnswerService \<Rightarrow> trace \<Rightarrow> AnswerGenerationRequest \<Rightarrow>
     (exn + AnswerGenerationResponse) \<times> AnswerGenerationRequest \<times> trace" where
  "ai_try_fallback service tr request =
     ai_fallback_loop service tr request [py ''openai'', py ''anthropic'']"

definition generate_answer ::
    "AIAnswerService \<Rightarrow> trace \<Rightarrow> AnswerGenerationRequest \<Rightarrow>
     (exn + AnswerGenerationResponse) \<times> AnswerGenerationRequest \<times> trace" where
  "generate_answer service tr request =
     (case map_of (providers service) (AnswerGenerationRequest.provider request) of
        None \<Rightarrow>
          (Inl (ValueError (py ''Provider '' @ AnswerGenerationRequest.provider request @
                            py '' not available'')), request, tr)
      | Some p \<Rightarrow>
          let tr' = tr @ [(Answer, AnswerGenerationRequest.provider request)]
          in case ai_call (prompts service) p (length tr) request of
               Some (result, processed_answer) \<Rightarrow>
                 (Inr \<lparr>AnswerGenerationResponse.question =
                          AnswerGenerationRequest.question request,
                        AnswerGenerationResponse.answer = processed_answer,
                        AnswerGenerationResponse.confidence =
                          (case AIResult.confidence result of None \<Rightarrow> 0.9 | Some c \<Rightarrow> c),
                        AnswerGenerationResponse.provider =
                          AnswerGenerationRequest.provider request,
                        AnswerGenerationResponse.metadata =
                          [(py ''style'', JStr (AnswerGenerationRequest.style request)),
                           (py ''language'', JStr (AnswerGenerationRequest.language request)),
                           (py ''original_length'', JInt (int (length (AIResult.answer result)))),
                           (py ''processed_length'', JInt (int (length processed_answer)))]\<rparr>,
                  request, tr')
             | None \<Rightarrow> ai_try_fallback service tr' request)"

section \<open>The application: sessions, configuration and the pipeline\<close>

text \<open>
  The module state of \<open>main.py\<close>: the global \<open>settings\<close>, the dicts \<open>active_connections\<close>
  and \<open>active_sessions\<close>, and two logs that make the effects visible: \<open>sent\<close>, the frames
  passed to \<open>send_text\<close> with the session they went to, and \<open>calls\<close>, the adapter calls
  made. The three services are created once at startup and never assigned again. One
  handler runs at a time: the interleaving of coroutines at an \<open>await\<close> is not modelled,
  and \<open>send_text\<close> does not fail.
\<close>

datatype event =
    Status
  | TranscriptionEvent str rat str
  | TranslationEvent str str str str rat
  | AnswerEvent str str rat str
  | ErrorEvent str str
  | Pong
  | ConfigUpdated str str

text \<open>
  The fields of the events are the keys of the \<open>data\<close> dict in the order of the source:
  \<open>text, confidence, language\<close>;
  \<open>original_text, translated_text, source_language, target_language, confidence\<close>;
  \<open>question, answer, confidence, style\<close>; \<open>error, message\<close>;
  \<open>source_language, target_language\<close>.
\<close>

fun message_type :: "event \<Rightarrow> str" where
  "message_type Status = py ''status''"
| "message_type (TranscriptionEvent x1 x2 x3) = py ''transcription''"
| "message_type (TranslationEvent x1 x2 x3 x4 x5) = py ''translation''"
| "message_type (AnswerEvent x1 x2 x3 x4) = py ''answer''"
| "message_type (ErrorEvent x1 x2) = py ''error''"
| "message_type Pong = py ''pong''"
| "message_type (ConfigUpdated x1 x2) = py ''config_updated''"

record Services =
  stt_service :: "(str \<times> STTProvider) list"
  translation_service :: "(str \<times> TranslationProvider) list"
  ai_service :: AIAnswerService

record AppState =
  settings :: Settings
  active_connections :: "str set"
  active_sessions :: "str \<rightharpoonup> InterviewSession"
  sent :: "(str \<times> event) list"
  calls :: trace

definition startup_event :: "Settings \<Rightarrow> Environment \<Rightarrow> Prompts \<Rightarrow> Services" where
  "startup_event s env table =
     \<lparr>stt_service = speech_initialize_providers s env,
      translation_service = translation_initialize_providers s env,
      ai_service = \<lparr>providers = ai_initialize_providers s env, prompts = table\<rparr>\<rparr>"

definition send_message :: "AppState \<Rightarrow> str \<Rightarrow> event \<Rightarrow> AppState" where
  "send_message st sid ev =
     (if sid \<notin> active_connections st then st
      else st\<lparr>sent := sent st @ [(sid, ev)]\<rparr>)"

definition send_error :: "AppState \<Rightarrow> str \<Rightarrow> str \<Rightarrow> str \<Rightarrow> AppState" where
  "send_error st sid error message = send_message st sid (ErrorEvent error message)"

text \<open>\<open>POST /config/update\<close>: a field is applied when it is set and not empty.\<close>

definition update_config :: "AppState \<Rightarrow> ConfigUpdate \<Rightarrow> AppState" where
  "update_config st config =
     (let s = settings st;
          s = (case ConfigUpdate.source_language config of
                 None \<Rightarrow> s
               | Some v \<Rightarrow> if v = [] then s else s\<lparr>default_source_language := v\<rparr>);
          s = (case ConfigUpdate.target_language config of
                 None \<Rightarrow> s
               | Some v \<Rightarrow> if v = [] then s else s\<lparr>default_target_language := v\<rparr>);
          s = (case ConfigUpdate.stt_provider config of
                 None \<Rightarrow> s
               | Some v \<Rightarrow> if v = [] then s else s\<lparr>Settings.stt_provider := v\<rparr>);
          s = (case ConfigUpdate.translation_provider config of
                 None \<Rightarrow> s
               | Some v \<Rightarrow> if v = [] then s else s\<lparr>Settings.translation_provider := v\<rparr>);
          s = (case ConfigUpdate.answer_style config of
                 None \<Rightarrow> s
               | Some v \<Rightarrow> if v = [] then s else s\<lparr>Settings.answer_style := v\<rparr>)
      in st\<lparr>settings := s\<rparr>)"

text \<open>
  \<open>process_audio_chunk(session_id, data)\<close>; of \<open>data\<close> only \<open>data.get("audio_data")\<close>
  is read, so \<open>data\<close> is that value.
  Every exception raised inside is caught by the function's own \<open>except\<close>, which sends
  one error frame.
\<close>

definition process_audio_chunk ::
    "Services \<Rightarrow> AppState \<Rightarrow> str \<Rightarrow> str option \<Rightarrow> AppState" where
  "process_audio_chunk svc st sid data =
     (case active_sessions st sid of
        None \<Rightarrow> st
      | Some session \<Rightarrow>
          (case data of
             None \<Rightarrow> st
           | Some audio \<Rightarrow>
               if audio = [] then st
               else
                 let transcription_request =
                       \<lparr>TranscriptionRequest.audio_data = audio,
                        TranscriptionRequest.language =
                          Some (InterviewSession.source_language session),
                        TranscriptionRequest.provider = Settings.stt_provider (settings st)\<rparr>;
                     (r, request', tr) = transcribe (stt_service svc) (calls st) transcription_request;
                     st = st\<lparr>calls := tr\<rparr>
                 in case r of
                      Inl e \<Rightarrow> send_error st sid (py ''Pipeline error'') (str_of_exn e)
                    | Inr transcription \<Rightarrow>
                        let st = send_message st sid
                                   (TranscriptionEvent (TranscriptionResponse.text transcription)
                                      (TranscriptionResponse.confidence transcription)
                                      (TranscriptionResponse.language transcription))
                        in if strip (TranscriptionResponse.text transcription) = [] then st
                           else
                             let (failed, question_text, st) =
                                   (if InterviewSession.source_language session \<noteq>
                                       InterviewSession.target_language session
                                    then
                                      let translation_request =
                                            \<lparr>TranslationRequest.text =
                                               TranscriptionResponse.text transcription,
                                             TranslationRequest.source_language =
                                               TranscriptionResponse.language transcription,
                                             TranslationRequest.target_language =
                                               InterviewSession.target_language session,
                                             TranslationRequest.provider =
                                               Settings.translation_provider (settings st)\<rparr>;
                                          (r, request', tr) =
                                            translate (translation_service svc) (calls st)
                                              translation_request;
                                          st = st\<lparr>calls := tr\<rparr>
                                      in case r of
                                           Inl e \<Rightarrow> (Some e, [], st)
                                         | Inr translation \<Rightarrow>
                                             (None, TranslationResponse.translated_text translation,
                                              send_message st sid
                                                (TranslationEvent
                                                   (TranslationResponse.original_text translation)
                                                   (TranslationResponse.translated_text translation)
                                                   (TranslationResponse.source_language translation)
                                                   (TranslationResponse.target_language translation)
                                                   (TranslationResponse.confidence translation)))
                                    else (None, TranscriptionResponse.text transcription, st))
                             in case failed of
                                  Some e \<Rightarrow> send_error st sid (py ''Pipeline error'') (str_of_exn e)
                                | None \<Rightarrow>
                                    let answer_request =
                                          \<lparr>AnswerGenerationRequest.question = question_text,
                                           AnswerGenerationRequest.context = None,
                                           AnswerGenerationRequest.style =
                                             Settings.answer_style (settings st),
                                           AnswerGenerationRequest.max_length =
                                             answer_max_length (settings st),
                                           AnswerGenerationRequest.language =
                                             InterviewSession.target_language session,
                                           AnswerGenerationRequest.provider = py ''openai''\<rparr>;
                                        (r, request', tr) =
                                          generate_answer (ai_service svc) (calls st) answer_request;
                                        st = st\<lparr>calls := tr\<rparr>
                                    in case r of
                                         Inl e \<Rightarrow>
                                           send_error st sid (py ''Pipeline error'') (str_of_exn e)
                                       | Inr response \<Rightarrow>
                                           send_message st sid
                                             (AnswerEvent
                                                (AnswerGenerationResponse.question response)
                                                (AnswerGenerationResponse.answer response)
                                                (AnswerGenerationResponse.confidence response)
                                                (Settings.answer_style (settings st)))))"

text \<open>
  \<open>update_session_config(session_id, config)\<close>: the two keys of a \<open>config_update\<close> frame
  that are read, each present or absent.
\<close>

record SessionConfig =
  source_language :: "str option"
  target_language :: "str option"

definition update_session_config :: "AppState \<Rightarrow> str \<Rightarrow> SessionConfig \<Rightarrow> AppState" where
  "update_session_config st sid config =
     (case active_sessions st sid of
        None \<Rightarrow> st
      | Some session \<Rightarrow>
          let session = (case SessionConfig.source_language config of
                           None \<Rightarrow> session
                         | Some l \<Rightarrow> session\<lparr>InterviewSession.source_language := l\<rparr>);
              session = (case SessionConfig.target_language config of
                           None \<Rightarrow> session
                         | Some l \<Rightarrow> session\<lparr>InterviewSession.target_language := l\<rparr>);
              st = st\<lparr>active_sessions := (active_sessions st)(sid \<mapsto> session)\<rparr>
          in send_message st sid
               (ConfigUpdated (InterviewSession.source_language session)
                  (InterviewSession.target_language session)))"

text \<open>An inbound frame after \<open>json.loads\<close>, by its \<open>type\<close>.\<close>

datatype message =
    audio_chunk "str option"
  | config_update SessionConfig
  | ping
  | unknown

definition handle_websocket_message :: "Services \<Rightarrow> AppState \<Rightarrow> str \<Rightarrow> message \<Rightarrow> AppState" where
  "handle_websocket_message svc st sid msg =
     (case msg of
        audio_chunk data \<Rightarrow> process_audio_chunk svc st sid data
      | config_update config \<Rightarrow> update_session_config st sid config
      | ping \<Rightarrow> send_message st sid Pong
      | unknown \<Rightarrow> st)"

text \<open>
  \<open>websocket_endpoint\<close>: the connection and a new session are registered, the welcome
  frame is sent, and frames are handled until the client disconnects (the end of the
  list) or a frame cannot be decoded; then the \<open>finally\<close> block removes both entries.
\<close>

definition websocket_accept :: "AppState \<Rightarrow> str \<Rightarrow> AppState" where
  "websocket_accept st sid =
     (let st = st\<lparr>active_connections := insert sid (active_connections st)\<rparr>;
          session = \<lparr>InterviewSession.session_id = sid,
                     InterviewSession.source_language = default_source_language (settings st),
                     InterviewSession.target_language = default_target_language (settings st),
                     InterviewSession.is_active = True\<rparr>;
          st = st\<lparr>active_sessions := (active_sessions st)(sid \<mapsto> session)\<rparr>
      in send_message st sid Status)"

definition websocket_cleanup :: "AppState \<Rightarrow> str \<Rightarrow> AppState" where
  "websocket_cleanup st sid =
     st\<lparr>active_connections := active_connections st - {sid},
        active_sessions := (active_sessions st)(sid := None)\<rparr>"

datatype inbound = Json message | Undecodable str

fun receive_loop :: "Services \<Rightarrow> AppState \<Rightarrow> str \<Rightarrow> inbound list \<Rightarrow> AppState" where
  "receive_loop svc st sid [] = websocket_cleanup st sid"
| "receive_loop svc st sid (Json msg # rest) =
     receive_loop svc (handle_websocket_message svc st sid msg) sid rest"
| "receive_loop svc st sid (Undecodable e # rest) =
     websocket_cleanup (send_error st sid (py ''WebSocket error'') e) sid"

definition websocket_endpoint :: "Services \<Rightarrow> AppState \<Rightarrow> str \<Rightarrow> inbound list \<Rightarrow> AppState" where
  "websocket_endpoint svc st sid frames = receive_loop svc (websocket_accept st sid) sid frames"

section \<open>Notions used in the statements and proofs\<close>

text \<open>A word: a non-empty string without whitespace, as \<open>split\<close> returns them.\<close>

definition is_word :: "str \<Rightarrow> bool" where
  "is_word w = (w \<noteq> [] \<and> (\<forall>c \<in> set w. \<not> isspace c))"

text \<open>
  The second and third step of \<^const>\<open>post_process_answer\<close> on their own: the cut to
  \<open>max_length\<close> words with the search for a sentence end, and the final punctuation.
\<close>

definition truncate_stage :: "str \<Rightarrow> int \<Rightarrow> str" where
  "truncate_stage a n =
     (if int (length (split_ws a)) > n then
        let b = join_sp (slice_to (split_ws a) n)
        in if \<not> endswith b (ch CHR ''.'') \<and> gt_len_times_0_7 (rfind b (ch CHR ''.'')) (length b)
           then slice_to b (rfind b (ch CHR ''.'') + 1) else b
      else a)"

definition punctuate_stage :: "str \<Rightarrow> str" where
  "punctuate_stage a =
     (if \<not> endswith_any a [ch CHR ''.'', ch CHR ''!'', ch CHR ''?''] then a @ [ch CHR ''.''] else a)"

text \<open>
  The three conditions on a whitespace-normalized answer: no whitespace at either end, no
  two whitespace characters in a row, and no whitespace character other than the space.
\<close>

definition no_outer_whitespace :: "str \<Rightarrow> bool" where
  "no_outer_whitespace s = (s = [] \<or> (\<not> isspace (hd s) \<and> \<not> isspace (last s)))"

fun no_space_runs :: "str \<Rightarrow> bool" where
  "no_space_runs (c # d # cs) = (\<not> (isspace c \<and> isspace d) \<and> no_space_runs (d # cs))"
| "no_space_runs cs = True"

definition only_plain_spaces :: "str \<Rightarrow> bool" where
  "only_plain_spaces s = (\<forall>c \<in> set s. isspace c \<longrightarrow> c = ch CHR '' '')"

text \<open>
  The requests and events that \<^const>\<open>process_audio_chunk\<close> builds, and its last stage,
  named so that statements about a run can refer to them.
\<close>

definition chunk_transcription_request ::
    "AppState \<Rightarrow> InterviewSession \<Rightarrow> str \<Rightarrow> TranscriptionRequest" where
  "chunk_transcription_request st session audio =
     \<lparr>TranscriptionRequest.audio_data = audio,
      TranscriptionRequest.language = Some (InterviewSession.source_language session),
      TranscriptionRequest.provider = Settings.stt_provider (settings st)\<rparr>"

definition chunk_translation_request ::
    "AppState \<Rightarrow> InterviewSession \<Rightarrow> TranscriptionResponse \<Rightarrow> TranslationRequest" where
  "chunk_translation_request st session transcription =
     \<lparr>TranslationRequest.text = TranscriptionResponse.text transcription,
      TranslationRequest.source_language = TranscriptionResponse.language transcription,
      TranslationRequest.target_language = InterviewSession.target_language session,
      TranslationRequest.provider = Settings.translation_provider (settings st)\<rparr>"

definition chunk_answer_request ::
    "AppState \<Rightarrow> InterviewSession \<Rightarrow> str \<Rightarrow> AnswerGenerationRequest" where
  "chunk_answer_request st session question_text =
     \<lparr>AnswerGenerationRequest.question = question_text,
      AnswerGenerationRequest.context = None,
      AnswerGenerationRequest.style = Settings.answer_style (settings st),
      AnswerGenerationRequest.max_length = answer_max_length (settings st),
      AnswerGenerationRequest.language = InterviewSession.target_language session,
      AnswerGenerationRequest.provider = py ''openai''\<rparr>"

definition transcription_event :: "TranscriptionResponse \<Rightarrow> event" where
  "transcription_event transcription =
     TranscriptionEvent (TranscriptionResponse.text transcription)
       (TranscriptionResponse.confidence transcription)
       (TranscriptionResponse.language transcription)"

definition translation_event :: "TranslationResponse \<Rightarrow> event" where
  "translation_event translation =
     TranslationEvent (TranslationResponse.original_text translation)
       (TranslationResponse.translated_text translation)
       (TranslationResponse.source_language translation)
       (TranslationResponse.target_language translation)
       (TranslationResponse.confidence translation)"

definition answer_event :: "AppState \<Rightarrow> AnswerGenerationResponse \<Rightarrow> event" where
  "answer_event st response =
     AnswerEvent (AnswerGenerationResponse.question response)
       (AnswerGenerationResponse.answer response)
       (AnswerGenerationResponse.confidence response)
       (Settings.answer_style (settings st))"

definition pipeline_error :: "AppState \<Rightarrow> str \<Rightarrow> exn \<Rightarrow> AppState" where
  "pipeline_error st sid e = send_error st sid (py ''Pipeline error'') (str_of_exn e)"

definition answer_stage :: "Services \<Rightarrow> InterviewSession \<Rightarrow> AppState \<Rightarrow> str \<Rightarrow> str \<Rightarrow> AppState" where
  "answer_stage svc session st sid question_text =
     (case generate_answer (ai_service svc) (calls st) (chunk_answer_request st session question_text) of
        (Inl e, rq, tr) \<Rightarrow> pipeline_error (st\<lparr>calls := tr\<rparr>) sid e
      | (Inr response, rq, tr) \<Rightarrow>
          send_message (st\<lparr>calls := tr\<rparr>) sid (answer_event st response))"

text \<open>The frames a handler added to \<open>sent\<close>.\<close>

definition new_frames :: "AppState \<Rightarrow> AppState \<Rightarrow> (str \<times> event) list" where
  "new_frames st st' = drop (length (sent st)) (sent st')"



section \<open>Fake adapters and an example state\<close>

text \<open>
  Test doubles for concrete runs: an adapter that always raises, adapters that return a
  fixed result, an adapter that raises on every call before a given time, the settings
  with the defaults of \<open>settings.py\<close> and no API key, and a state in which the session
  \<open>s1\<close> is open with the given source and target language.
\<close>

definition failing :: "nat \<Rightarrow> 'rq \<Rightarrow> str + 'res" where
  "failing t rq = Inl (py ''connection refused'')"


definition failing_before :: "nat \<Rightarrow> (nat \<Rightarrow> 'rq \<Rightarrow> str + 'res) \<Rightarrow> nat \<Rightarrow> 'rq \<Rightarrow> str + 'res" where
  "failing_before k p t rq = (if t < k then Inl (py ''connection refused'') else p t rq)"

definition fake_stt :: "str \<Rightarrow> rat option \<Rightarrow> str \<Rightarrow> STTProvider" where
  "fake_stt txt conf lang t rq =
     Inr \<lparr>STTResult.text = txt, STTResult.confidence = conf,
          STTResult.language = Some (Some lang)\<rparr>"

definition fake_translation :: "str \<Rightarrow> TranslationProvider" where
  "fake_translation txt t rq =
     Inr \<lparr>TranslationResult.translated_text = txt, TranslationResult.source_language = None,
          TranslationResult.confidence = None\<rparr>"

definition fake_ai :: "str \<Rightarrow> AIProvider" where
  "fake_ai txt t pr rq = Inr \<lparr>AIResult.answer = txt, AIResult.confidence = None\<rparr>"

definition example_prompts :: Prompts where
  "example_prompts =
     (let template = \<lparr>PromptTemplate.system = py ''You are an interview coach.'',
                       PromptTemplate.user = (\<lambda>q c. py ''Question: '' @ q @ py '' Context: '' @ c)\<rparr>
      in \<lparr>professional = template, academic = template, casual = template\<rparr>)"

definition example_settings :: Settings where
  "example_settings =
     \<lparr>openai_api_key = None, google_translate_api_key = None, google_speech_api_key = None,
      deepl_api_key = None, anthropic_api_key = None,
      default_source_language = py ''auto'', default_target_language = py ''en'',
      Settings.translation_provider = py ''google'', Settings.stt_provider = py ''openai'',
      answer_max_length = 150, Settings.answer_style = py ''professional''\<rparr>"

definition example_session :: "str \<Rightarrow> str \<Rightarrow> InterviewSession" where
  "example_session source target =
     \<lparr>InterviewSession.session_id = py ''s1'',
      InterviewSession.source_language = source,
      InterviewSession.target_language = target,
      InterviewSession.is_active = True\<rparr>"

definition example_state :: "str \<Rightarrow> str \<Rightarrow> AppState" where
  "example_state source target =
     \<lparr>settings = example_settings,
      active_connections = {py ''s1''},
      active_sessions = [py ''s1'' \<mapsto> example_session source target],
      sent = [], calls = []\<rparr>"

definition example_environment :: Environment where
  "example_environment =
     \<lparr>openai_module = False, whisper_module = False, speech_module = False,
      translate_module = False, DeepLTranslator_class = False, googletrans_module = False,
      anthropic_module = False,
      OpenAISTTProvider = None, GoogleSTTProvider = None, LocalWhisperProvider = None,
      GoogleTranslateProvider = None, DeepLProvider = None, GoogleTranslateFreeProvider = None,
      OpenAIProvider = None, AnthropicProvider = None,
      str_upper = (\<lambda>s. s), str_lower = (\<lambda>s. s)\<rparr>"

definition example_services ::
    "(str \<times> STTProvider) list \<Rightarrow> (str \<times> TranslationProvider) list \<Rightarrow> (str \<times> AIProvider) list \<Rightarrow>
     Services" where
  "example_services stt trn ai =
     \<lparr>stt_service = stt, translation_service = trn,
      ai_service = \<lparr>providers = ai, prompts = example_prompts\<rparr>\<rparr>"

section \<open>Lemmas on strings\<close>


lemma split_ws_Nil [simp]: "split_ws [] = []"
  by (simp add: split_ws.simps)

lemma split_ws_space [simp]: "isspace c \<Longrightarrow> split_ws (c # s) = split_ws s"
  by (subst split_ws.simps, subst (2) split_ws.simps) simp

lemma split_ws_unfold_Nil: "dropWhile isspace s = [] \<Longrightarrow> split_ws s = []"
  by (subst split_ws.simps) simp

lemma split_ws_unfold:
  "dropWhile isspace s = t \<Longrightarrow> t \<noteq> [] \<Longrightarrow>
   split_ws s = takeWhile (\<lambda>c. \<not> isspace c) t # split_ws (dropWhile (\<lambda>c. \<not> isspace c) t)"
  by (subst split_ws.simps) (simp add: Let_def)

lemma split_ws_word_append:
  assumes "is_word w" and "r = [] \<or> isspace (hd r)"
  shows "split_ws (w @ r) = w # split_ws r"
proof -
  from assms(1) obtain c cs where w: "w = c # cs" and c: "\<not> isspace c"
    by (cases w) (auto simp: is_word_def)
  have all: "\<And>x. x \<in> set w \<Longrightarrow> \<not> isspace x"
    using assms(1) by (simp add: is_word_def)
  have d: "dropWhile isspace (w @ r) = w @ r"
    using w c by simp
  have ne: "w @ r \<noteq> []"
    using w by simp
  have t: "takeWhile (\<lambda>c. \<not> isspace c) (w @ r) = w"
    using assms(2) by (cases r) (simp_all add: all)
  have e: "dropWhile (\<lambda>c. \<not> isspace c) (w @ r) = r"
    using assms(2) by (cases r) (simp_all add: all)
  show ?thesis
    using split_ws_unfold [OF d ne] by (simp only: t e)
qed

lemma split_ws_word: "is_word w \<Longrightarrow> split_ws w = [w]"
  using split_ws_word_append [of w "[]"] by simp

lemma split_ws_is_word: "w \<in> set (split_ws s) \<Longrightarrow> is_word w"
proof (induction s rule: split_ws.induct)
  case (1 s)
  define t where "t = dropWhile isspace s"
  show ?case
  proof (cases "t = []")
    case True
    then have "split_ws s = []"
      unfolding t_def by (rule split_ws_unfold_Nil)
    with "1.prems" show ?thesis
      by simp
  next
    case False
    then have hd: "\<not> isspace (hd t)"
      unfolding t_def by (rule hd_dropWhile)
    have "split_ws s = takeWhile (\<lambda>c. \<not> isspace c) t # split_ws (dropWhile (\<lambda>c. \<not> isspace c) t)"
      using False by (intro split_ws_unfold) (simp_all add: t_def)
    with "1.prems"
    have "w = takeWhile (\<lambda>c. \<not> isspace c) t \<or> w \<in> set (split_ws (dropWhile (\<lambda>c. \<not> isspace c) t))"
      by simp
    then show ?thesis
    proof
      assume w: "w = takeWhile (\<lambda>c. \<not> isspace c) t"
      have "w \<noteq> []"
        using False hd unfolding w by (cases t) auto
      moreover have "\<forall>c \<in> set w. \<not> isspace c"
        unfolding w by (auto dest: set_takeWhileD)
      ultimately show ?thesis
        by (simp add: is_word_def)
    next
      assume "w \<in> set (split_ws (dropWhile (\<lambda>c. \<not> isspace c) t))"
      with "1.IH" [OF t_def False] show ?thesis .
    qed
  qed
qed

lemma join_sp_Cons: "ws \<noteq> [] \<Longrightarrow> join_sp (w # ws) = w @ ch CHR '' '' # join_sp ws"
  by (cases ws) simp_all

lemma isspace_space [simp]: "isspace 32"
  by (simp add: isspace_def)

lemma not_isspace_period [simp]: "\<not> isspace 46"
  by (simp add: isspace_def)

lemma split_join:
  "\<forall>w \<in> set ws. is_word w \<Longrightarrow> split_ws (join_sp ws) = ws"
proof (induction ws rule: join_sp.induct)
  case 1
  show ?case by simp
next
  case (2 w)
  then show ?case by (simp add: split_ws_word)
next
  case (3 w v ws)
  then have "split_ws (join_sp (v # ws)) = v # ws"
    by simp
  moreover have "split_ws (w @ ch CHR '' '' # join_sp (v # ws)) = w # split_ws (ch CHR '' '' # join_sp (v # ws))"
    using 3 by (intro split_ws_word_append) simp_all
  ultimately show ?case
    by simp
qed

lemma is_word_take: "is_word w \<Longrightarrow> 0 < k \<Longrightarrow> is_word (take k w)"
  by (cases w; cases k) (auto simp: is_word_def dest: in_set_takeD)

lemma take_join_sp:
  assumes "list_all is_word ws" and "0 < k" and "k \<le> length (join_sp ws)"
    and "\<not> isspace (join_sp ws ! (k - 1))"
  shows "\<exists>vs. list_all is_word vs \<and> vs \<noteq> [] \<and> length vs \<le> length ws \<and>
              take k (join_sp ws) = join_sp vs"
  using assms
proof (induction ws arbitrary: k rule: join_sp.induct)
  case 1
  then show ?case by simp
next
  case (2 w)
  then have "list_all is_word [take k w]" and "take k (join_sp [w]) = join_sp [take k w]"
    by (simp_all add: is_word_take)
  then show ?case
    by (intro exI [of _ "[take k w]"]) simp
next
  case (3 w v ws)
  let ?rest = "join_sp (v # ws)"
  have s: "join_sp (w # v # ws) = w @ ch CHR '' '' # ?rest"
    by simp
  consider "k \<le> length w" | "k = Suc (length w)" | "Suc (length w) < k"
    by linarith
  then show ?case
  proof cases
    case 1
    with 3 have "list_all is_word [take k w]" and "take k (join_sp (w # v # ws)) = join_sp [take k w]"
      by (simp_all add: is_word_take)
    then show ?thesis
      by (intro exI [of _ "[take k w]"]) simp
  next
    case 2
    then have "join_sp (w # v # ws) ! (k - 1) = (ch CHR '' '')"
      by (simp add: nth_append)
    with "3.prems" show ?thesis
      by simp
  next
    case 3
    define j where "j = k - Suc (length w)"
    from 3 have j: "0 < j" and k: "k = Suc (length w) + j"
      by (simp_all add: j_def)
    have nth: "join_sp (w # v # ws) ! (k - 1) = ?rest ! (j - 1)"
      using j by (cases j) (simp_all add: k nth_append)
    have "\<exists>vs. list_all is_word vs \<and> vs \<noteq> [] \<and> length vs \<le> length (v # ws) \<and>
               take j ?rest = join_sp vs"
      using "3.prems" j nth by (intro "3.IH") (simp_all add: k)
    then obtain vs where vs: "list_all is_word vs" "vs \<noteq> []" "length vs \<le> length (v # ws)"
        "take j ?rest = join_sp vs"
      by blast
    have "take k (join_sp (w # v # ws)) = w @ ch CHR '' '' # take j ?rest"
      by (simp add: k)
    also have "\<dots> = join_sp (w # vs)"
      using vs by (simp add: join_sp_Cons)
    finally have "take k (join_sp (w # v # ws)) = join_sp (w # vs)" .
    moreover have "list_all is_word (w # vs)"
      using vs "3.prems" by simp
    moreover have "length (w # vs) \<le> length (w # v # ws)"
      using vs by simp
    ultimately show ?thesis
      by (intro exI [of _ "w # vs"]) simp
  qed
qed

lemma join_sp_snoc_char:
  assumes "list_all is_word ws" and "ws \<noteq> []" and "\<not> isspace c"
  shows "\<exists>vs. list_all is_word vs \<and> length vs = length ws \<and> join_sp ws @ [c] = join_sp vs"
  using assms
proof (induction ws rule: join_sp.induct)
  case 1
  then show ?case by simp
next
  case (2 w)
  then have "list_all is_word [w @ [c]]"
    by (simp add: is_word_def)
  then show ?case
    by (intro exI [of _ "[w @ [c]]"]) simp
next
  case (3 w v ws)
  then obtain vs where vs: "list_all is_word vs" "length vs = length (v # ws)"
      "join_sp (v # ws) @ [c] = join_sp vs"
    by auto
  then have "vs \<noteq> []"
    by auto
  then have "join_sp (w # v # ws) @ [c] = join_sp (w # vs)"
    using vs by (simp add: join_sp_Cons)
  moreover have "list_all is_word (w # vs)" "length (w # vs) = length (w # v # ws)"
    using vs 3 by simp_all
  ultimately show ?case
    by blast
qed

lemma join_sp_ends:
  assumes "list_all is_word ws" and "ws \<noteq> []"
  shows "join_sp ws \<noteq> [] \<and> \<not> isspace (hd (join_sp ws)) \<and> \<not> isspace (last (join_sp ws))"
  using assms
proof (induction ws rule: join_sp.induct)
  case 1
  then show ?case by simp
next
  case (2 w)
  then show ?case
    by (cases w rule: rev_cases) (auto simp: is_word_def hd_append)
next
  case (3 w v ws)
  then show ?case
    by (cases w) (auto simp: is_word_def)
qed

lemma strip_id:
  assumes "s = [] \<or> (\<not> isspace (hd s) \<and> \<not> isspace (last s))"
  shows "strip s = s"
proof (cases "s = []")
  case True
  then show ?thesis by (simp add: strip_def)
next
  case False
  with assms have h: "\<not> isspace (hd s)" and l: "\<not> isspace (last s)"
    by simp_all
  from False h have "dropWhile isspace s = s"
    by (cases s) simp_all
  moreover from False l have "dropWhile isspace (rev s) = rev s"
    by (cases s rule: rev_cases) simp_all
  ultimately show ?thesis
    by (simp add: strip_def)
qed

lemma rfind_from_found:
  "rfind_from i xs c = r \<Longrightarrow> r \<noteq> -1 \<Longrightarrow>
   int i \<le> r \<and> r < int i + int (length xs) \<and> xs ! (nat r - i) = c"
proof (induction xs arbitrary: i)
  case Nil
  then show ?case by simp
next
  case (Cons x xs)
  show ?case
  proof (cases "rfind_from (Suc i) xs c = -1")
    case True
    with Cons.prems show ?thesis
      by (auto simp: Let_def split: if_splits)
  next
    case False
    with Cons.prems have r: "rfind_from (Suc i) xs c = r"
      by (simp add: Let_def)
    from Cons.IH [OF r Cons.prems(2)]
    have "int (Suc i) \<le> r" "r < int (Suc i) + int (length xs)" "xs ! (nat r - Suc i) = c"
      by simp_all
    moreover from this have "nat r - i = Suc (nat r - Suc i)"
      by linarith
    ultimately show ?thesis
      by simp
  qed
qed

lemma bit_length_0: "n \<le> 0 \<Longrightarrow> bit_length n = 0"
  by (subst bit_length.simps) simp

lemma round53_nonneg: "0 \<le> m \<Longrightarrow> 0 \<le> round53 m"
  by (auto simp: round53_def Let_def pos_imp_zdiv_nonneg_iff)

lemma gt_len_times_0_7_pos: "gt_len_times_0_7 p n \<Longrightarrow> 0 < p"
proof -
  assume a: "gt_len_times_0_7 p n"
  have "0 \<le> round53 (int n)"
    by (rule round53_nonneg) simp
  then have "0 \<le> round53 (round53 (int n) * 3152519739159347)"
    by (intro round53_nonneg) simp
  with a have "0 < p * 2 ^ 52"
    by (simp add: gt_len_times_0_7_def)
  then show ?thesis
    by (simp add: zero_less_mult_iff)
qed

lemma post_process_answer_stages:
  "post_process_answer s n = strip (punctuate_stage (truncate_stage (join_sp (split_ws s)) n))"
  by (simp add: post_process_answer_def truncate_stage_def punctuate_stage_def Let_def)

lemma split_ws_words: "list_all is_word (split_ws s)"
  by (simp add: list_all_iff split_ws_is_word)

lemma split_join_all: "list_all is_word ws \<Longrightarrow> split_ws (join_sp ws) = ws"
  by (simp add: split_join list_all_iff)

lemma slice_to_words: "list_all is_word ws \<Longrightarrow> list_all is_word (slice_to ws n)"
  by (auto simp: slice_to_def list_all_iff dest: in_set_takeD)

lemma slice_to_length: "0 \<le> n \<Longrightarrow> int (length (slice_to ws n)) \<le> n"
  by (simp add: slice_to_def)

lemma truncate_shape:
  assumes ws: "list_all is_word ws"
  shows "\<exists>vs. list_all is_word vs \<and> (0 \<le> n \<longrightarrow> int (length vs) \<le> n) \<and>
              truncate_stage (join_sp ws) n = join_sp vs"
proof (cases "int (length ws) > n")
  case False
  then have "truncate_stage (join_sp ws) n = join_sp ws"
    by (simp add: truncate_stage_def split_join_all ws)
  with ws False show ?thesis
    by (intro exI [of _ ws]) simp
next
  case True
  define us where "us = slice_to ws n"
  define b where "b = join_sp us"
  define p where "p = rfind b (ch CHR ''.'')"
  have us: "list_all is_word us" and len: "0 \<le> n \<longrightarrow> int (length us) \<le> n"
    by (simp_all add: us_def slice_to_words slice_to_length ws)
  have t: "truncate_stage (join_sp ws) n =
      (if \<not> endswith b (ch CHR ''.'') \<and> gt_len_times_0_7 p (length b) then slice_to b (p + 1) else b)"
    using True by (simp add: truncate_stage_def split_join_all ws Let_def us_def b_def p_def)
  show ?thesis
  proof (cases "\<not> endswith b (ch CHR ''.'') \<and> gt_len_times_0_7 p (length b)")
    case False
    with t have "truncate_stage (join_sp ws) n = b"
      by presburger
    then have "truncate_stage (join_sp ws) n = join_sp us"
      by (simp only: b_def)
    with us len show ?thesis
      by (intro exI [of _ us]) simp
  next
    case True
    then have pos: "0 < p"
      by (auto dest: gt_len_times_0_7_pos)
    then have "p \<noteq> -1"
      by simp
    with rfind_from_found [of 0 b "(ch CHR ''.'')" p]
    have p: "p < int (length b)" "b ! nat p = (ch CHR ''.'')"
      by (simp_all add: p_def rfind_def)
    define k where "k = Suc (nat p)"
    have k: "0 < k" "k \<le> length (join_sp us)" "\<not> isspace (join_sp us ! (k - 1))"
      using p pos by (simp_all add: k_def b_def [symmetric] isspace_def)
    from take_join_sp [OF us k] obtain vs where
      vs: "list_all is_word vs" "length vs \<le> length us" "take k (join_sp us) = join_sp vs"
      by blast
    have "slice_to b (p + 1) = take k b"
      using pos by (simp add: slice_to_def k_def nat_add_distrib)
    moreover from t True have "truncate_stage (join_sp ws) n = slice_to b (p + 1)"
      by presburger
    ultimately have "truncate_stage (join_sp ws) n = join_sp vs"
      using vs(3) by (simp only: b_def)
    moreover have "0 \<le> n \<longrightarrow> int (length vs) \<le> n"
      using vs(2) len by auto
    ultimately show ?thesis
      using vs(1) by blast
  qed
qed

lemma punctuated: "endswith_any (punctuate_stage a) [ch CHR ''.'', ch CHR ''!'', ch CHR ''?'']"
  by (simp add: punctuate_stage_def endswith_any_def endswith_def)

lemma punctuate_shape:
  assumes vs: "list_all is_word vs"
  shows "\<exists>us. list_all is_word us \<and> us \<noteq> [] \<and> length us = max 1 (length vs) \<and>
              punctuate_stage (join_sp vs) = join_sp us"
proof (cases "vs = []")
  case True
  have "list_all is_word [[ch CHR ''.'']]"
    by (simp add: is_word_def isspace_def)
  moreover have "punctuate_stage (join_sp vs) = join_sp [[ch CHR ''.'']]"
    using True by (simp add: punctuate_stage_def endswith_any_def endswith_def)
  ultimately show ?thesis
    using True by (intro exI [of _ "[[ch CHR ''.'']]"]) simp
next
  case False
  then have ne: "vs \<noteq> []" .
  show ?thesis
  proof (cases "endswith_any (join_sp vs) [ch CHR ''.'', ch CHR ''!'', ch CHR ''?'']")
    case True
    then have "punctuate_stage (join_sp vs) = join_sp vs"
      by (simp add: punctuate_stage_def)
    with vs ne show ?thesis
      by (intro exI [of _ vs]) (simp add: max_def Suc_leI)
  next
    case False
    have "\<not> isspace (ch CHR ''.'')"
      by (simp add: isspace_def)
    from join_sp_snoc_char [OF vs ne this] obtain us where
      us: "list_all is_word us" "length us = length vs" "join_sp vs @ [ch CHR ''.''] = join_sp us"
      by blast
    moreover from False have "punctuate_stage (join_sp vs) = join_sp vs @ [ch CHR ''.'']"
      by (simp add: punctuate_stage_def)
    moreover from us ne have "us \<noteq> []"
      by auto
    ultimately show ?thesis
      using ne by (intro exI [of _ us]) (simp add: max_def Suc_leI)
  qed
qed

lemma post_process_shape:
  "\<exists>us. list_all is_word us \<and> us \<noteq> [] \<and> (1 \<le> n \<longrightarrow> int (length us) \<le> n) \<and>
        post_process_answer s n = join_sp us \<and>
        endswith_any (join_sp us) [ch CHR ''.'', ch CHR ''!'', ch CHR ''?'']"
proof -
  from truncate_shape [OF split_ws_words, of n s] obtain vs where
    vs: "list_all is_word vs" "0 \<le> n \<longrightarrow> int (length vs) \<le> n"
      "truncate_stage (join_sp (split_ws s)) n = join_sp vs"
    by blast
  from punctuate_shape [OF vs(1)] obtain us where
    us: "list_all is_word us" "us \<noteq> []" "length us = max 1 (length vs)"
      "punctuate_stage (join_sp vs) = join_sp us"
    by blast
  have "strip (join_sp us) = join_sp us"
    using join_sp_ends [OF us(1,2)] by (intro strip_id) simp
  then have eq: "post_process_answer s n = join_sp us"
    by (simp add: post_process_answer_stages vs(3) us(4))
  have "endswith_any (join_sp us) [ch CHR ''.'', ch CHR ''!'', ch CHR ''?'']"
    using punctuated [of "join_sp vs"] by (simp add: us(4))
  moreover have "1 \<le> n \<longrightarrow> int (length us) \<le> n"
    using vs(2) us(3) by auto
  ultimately show ?thesis
    using us(1,2) eq by blast
qed

lemma no_space_runs_tl: "no_space_runs (x # xs) \<Longrightarrow> no_space_runs xs"
  by (cases xs) simp_all

lemma no_space_runs_suffix: "no_space_runs (xs @ ys) \<Longrightarrow> no_space_runs ys"
  by (induction xs) (auto dest: no_space_runs_tl)

lemma no_space_runs_dropWhile: "no_space_runs s \<Longrightarrow> no_space_runs (dropWhile P s)"
  using no_space_runs_suffix [of "takeWhile P s" "dropWhile P s"] by simp

lemma only_plain_spaces_dropWhile: "only_plain_spaces s \<Longrightarrow> only_plain_spaces (dropWhile P s)"
  by (auto simp: only_plain_spaces_def dest: set_dropWhileD)

lemma last_dropWhile: "dropWhile P s \<noteq> [] \<Longrightarrow> last (dropWhile P s) = last s"
  using last_appendR [of "dropWhile P s" "takeWhile P s"] by simp

lemma join_split_single_spaced:
  "no_space_runs s \<Longrightarrow> only_plain_spaces s \<Longrightarrow> s = [] \<or> \<not> isspace (last s) \<Longrightarrow>
   join_sp (split_ws s) = dropWhile isspace s"
proof (induction s rule: split_ws.induct)
  case (1 s)
  define t where "t = dropWhile isspace s"
  show ?case
  proof (cases "t = []")
    case True
    then show ?thesis
      by (simp add: t_def [symmetric] split_ws_unfold_Nil)
  next
    case False
    define w where "w = takeWhile (\<lambda>c. \<not> isspace c) t"
    define r where "r = dropWhile (\<lambda>c. \<not> isspace c) t"
    have t: "t = w @ r"
      by (simp add: w_def r_def)
    have sp: "split_ws s = w # split_ws r"
      using False unfolding w_def r_def by (intro split_ws_unfold) (simp_all add: t_def)
    have "last t = last s" and "s \<noteq> []"
      using False last_dropWhile [of isspace s] by (auto simp: t_def)
    then have tr: "no_space_runs t" "only_plain_spaces t" "\<not> isspace (last t)"
      using "1.prems"
      by (simp_all add: t_def no_space_runs_dropWhile only_plain_spaces_dropWhile)
    have rr: "no_space_runs r" "only_plain_spaces r"
      using tr by (simp_all add: r_def no_space_runs_dropWhile only_plain_spaces_dropWhile)
    have rl: "r = [] \<or> \<not> isspace (last r)"
    proof (cases "r = []")
      case True
      then show ?thesis by simp
    next
      case False
      then have "last r = last t"
        unfolding r_def by (rule last_dropWhile)
      with tr(3) show ?thesis by simp
    qed
    have IH: "join_sp (split_ws r) = dropWhile isspace r"
      using rr rl "1.IH" [OF t_def False] by (simp add: r_def)
    show ?thesis
    proof (cases r)
      case Nil
      then show ?thesis
        using sp t by (simp add: t_def)
    next
      case (Cons c r')
      from Cons have "r \<noteq> []"
        by simp
      then have "\<not> \<not> isspace (hd r)"
        unfolding r_def by (rule hd_dropWhile)
      then have c: "isspace c" "c = (ch CHR '' '')"
        using rr(2) Cons by (auto simp: only_plain_spaces_def)
      from rl c Cons obtain d r'' where r': "r' = d # r''"
        by (cases r') auto
      with rr(1) c Cons have "\<not> isspace d"
        by simp
      then have "dropWhile isspace r = r'"
        using c Cons r' by simp
      with IH have j: "join_sp (split_ws r) = r'"
        by simp
      with r' have "split_ws r \<noteq> []"
        by auto
      then have "join_sp (w # split_ws r) = w @ ch CHR '' '' # r'"
        by (simp add: join_sp_Cons j)
      then show ?thesis
        using sp t Cons c by (simp add: t_def)
    qed
  qed
qed

lemma fixed_point_words:
  assumes us: "list_all is_word us" and len: "int (length us) \<le> n"
    and e: "endswith_any (join_sp us) [ch CHR ''.'', ch CHR ''!'', ch CHR ''?'']"
  shows "post_process_answer (join_sp us) n = join_sp us"
proof -
  from e have "join_sp us \<noteq> []"
    by (auto simp: endswith_any_def endswith_def)
  then have ne: "us \<noteq> []"
    by auto
  have "truncate_stage (join_sp us) n = join_sp us"
    using len by (simp add: truncate_stage_def split_join_all us)
  moreover have "punctuate_stage (join_sp us) = join_sp us"
    using e by (simp add: punctuate_stage_def)
  moreover have "strip (join_sp us) = join_sp us"
    using join_sp_ends [OF us ne] by (intro strip_id) simp
  ultimately show ?thesis
    by (simp add: post_process_answer_stages split_join_all us)
qed

lemma post_process_zero: "post_process_answer s 0 = [ch CHR ''.'']"
proof -
  from truncate_shape [OF split_ws_words, of 0 s] obtain vs where
    "int (length vs) \<le> 0" "truncate_stage (join_sp (split_ws s)) 0 = join_sp vs"
    by auto
  then have "truncate_stage (join_sp (split_ws s)) 0 = []"
    by simp
  then show ?thesis
    by (simp add: post_process_answer_stages punctuate_stage_def endswith_any_def endswith_def
        strip_def isspace_def)
qed

lemma post_process_idem:
  assumes "0 \<le> n"
  shows "post_process_answer (post_process_answer t n) n = post_process_answer t n"
proof (cases "n = 0")
  case True
  then show ?thesis
    by (simp add: post_process_zero)
next
  case False
  with assms have n: "1 \<le> n"
    by simp
  from post_process_shape [of n t] obtain us where
    us: "list_all is_word us" "1 \<le> n \<longrightarrow> int (length us) \<le> n"
      "post_process_answer t n = join_sp us"
      "endswith_any (join_sp us) [ch CHR ''.'', ch CHR ''!'', ch CHR ''?'']"
    by blast
  from us(2) n have "int (length us) \<le> n"
    by simp
  from fixed_point_words [OF us(1) this us(4)] show ?thesis
    by (simp add: us(3))
qed

lemma post_process_fixed:
  assumes "no_outer_whitespace s" "no_space_runs s" "only_plain_spaces s"
    and e: "endswith_any s [ch CHR ''.'', ch CHR ''!'', ch CHR ''?'']"
    and len: "int (length (split_ws s)) \<le> n"
  shows "post_process_answer s n = s"
proof -
  from e have ne: "s \<noteq> []"
    by (auto simp: endswith_any_def endswith_def)
  with assms(1) have o: "\<not> isspace (hd s)" "\<not> isspace (last s)"
    by (simp_all add: no_outer_whitespace_def)
  then have "dropWhile isspace s = s"
    using ne by (cases s) simp_all
  with join_split_single_spaced [OF assms(2,3)] o have j: "join_sp (split_ws s) = s"
    by simp
  from fixed_point_words [OF split_ws_words, of s n] len e j show ?thesis
    by simp
qed

section \<open>Lemmas on the services\<close>

text \<open>What a service call does to the request and to the call trace.\<close>

lemma speech_attempt_provider:
  "speech_attempt p t rq c = Some resp \<Longrightarrow>
   TranscriptionResponse.provider resp = TranscriptionRequest.provider rq"
  by (auto simp: speech_attempt_def split: sum.splits option.splits)

lemma speech_fallback_loop_effect:
  "speech_fallback_loop ps tr rq order = (r, rq', tr') \<Longrightarrow>
   \<exists>cs. tr' = tr @ cs \<and> (\<forall>c \<in> set cs. fst c = STT) \<and>
        rq' = rq\<lparr>TranscriptionRequest.provider :=
                 (if cs = [] then TranscriptionRequest.provider rq else snd (last cs))\<rparr> \<and>
        (\<forall>resp. r = Inr resp \<longrightarrow> cs \<noteq> [] \<and> TranscriptionResponse.provider resp = snd (last cs))"
proof (induction order arbitrary: tr rq)
  case Nil
  then show ?case by auto
next
  case (Cons name rest)
  show ?case
  proof (cases "map_of ps name")
    case None
    with Cons.prems have "speech_fallback_loop ps tr rq rest = (r, rq', tr')"
      by simp
    then show ?thesis by (rule Cons.IH)
  next
    case (Some p)
    show ?thesis
    proof (cases "name = TranscriptionRequest.provider rq")
      case True
      with Cons.prems Some have "speech_fallback_loop ps tr rq rest = (r, rq', tr')"
        by simp
      then show ?thesis by (rule Cons.IH)
    next
      case False
      define rq1 where "rq1 = rq\<lparr>TranscriptionRequest.provider := name\<rparr>"
      show ?thesis
      proof (cases "speech_attempt p (length tr) rq1 0.8")
        case None
        with Cons.prems Some False
        have "speech_fallback_loop ps (tr @ [(STT, name)]) rq1 rest = (r, rq', tr')"
          by (simp add: rq1_def Let_def)
        from Cons.IH [OF this] obtain cs where
          cs: "tr' = (tr @ [(STT, name)]) @ cs" "\<forall>c \<in> set cs. fst c = STT"
            "rq' = rq1\<lparr>TranscriptionRequest.provider :=
                     (if cs = [] then TranscriptionRequest.provider rq1 else snd (last cs))\<rparr>"
            "\<forall>resp. r = Inr resp \<longrightarrow> cs \<noteq> [] \<and> TranscriptionResponse.provider resp = snd (last cs)"
          by blast
        then show ?thesis
          by (intro exI [of _ "(STT, name) # cs"]) (auto simp: rq1_def)
      next
        case (Some resp)
        with Cons.prems \<open>map_of ps name = Some p\<close> False
        have "r = Inr resp" "rq' = rq1" "tr' = tr @ [(STT, name)]"
          by (auto simp: rq1_def Let_def)
        moreover from Some have "TranscriptionResponse.provider resp = name"
          by (auto dest: speech_attempt_provider simp: rq1_def)
        ultimately show ?thesis
          by (intro exI [of _ "[(STT, name)]"]) (simp add: rq1_def)
      qed
    qed
  qed
qed

lemma transcribe_effect:
  assumes "transcribe ps tr rq = (r, rq', tr')"
  shows "\<exists>cs. tr' = tr @ cs \<and> (\<forall>c \<in> set cs. fst c = STT) \<and>
        rq' = rq\<lparr>TranscriptionRequest.provider :=
                 (if cs = [] then TranscriptionRequest.provider rq else snd (last cs))\<rparr> \<and>
        (\<forall>resp. r = Inr resp \<longrightarrow> cs \<noteq> [] \<and> TranscriptionResponse.provider resp = snd (last cs))"
proof (cases "map_of ps (TranscriptionRequest.provider rq)")
  case None
  with assms show ?thesis
    by (intro exI [of _ "[]"]) (auto simp: transcribe_def)
next
  case (Some p)
  let ?c = "(STT, TranscriptionRequest.provider rq)"
  show ?thesis
  proof (cases "speech_attempt p (length tr) rq 0.9")
    case None
    with assms Some
    have "speech_fallback_loop ps (tr @ [?c]) rq [py ''local'', py ''openai'', py ''google''] =
        (r, rq', tr')"
      by (simp add: transcribe_def speech_try_fallback_def Let_def)
    from speech_fallback_loop_effect [OF this] obtain cs where
      cs: "tr' = (tr @ [?c]) @ cs" "\<forall>c \<in> set cs. fst c = STT"
        "rq' = rq\<lparr>TranscriptionRequest.provider :=
                 (if cs = [] then TranscriptionRequest.provider rq else snd (last cs))\<rparr>"
        "\<forall>resp. r = Inr resp \<longrightarrow> cs \<noteq> [] \<and> TranscriptionResponse.provider resp = snd (last cs)"
      by blast
    then show ?thesis
      by (intro exI [of _ "?c # cs"]) auto
  next
    case (Some resp)
    with assms \<open>map_of ps (TranscriptionRequest.provider rq) = Some p\<close>
    have "r = Inr resp" "rq' = rq" "tr' = tr @ [?c]"
      by (auto simp: transcribe_def Let_def)
    moreover from Some have "TranscriptionResponse.provider resp = TranscriptionRequest.provider rq"
      by (rule speech_attempt_provider)
    ultimately show ?thesis
      by (intro exI [of _ "[?c]"]) simp
  qed
qed







text \<open>A successful fallback, and a capability whose adapters all raise.\<close>

lemma speech_fallback_loop_success:
  "speech_fallback_loop ps tr rq order = (Inr resp, rq', tr') \<Longrightarrow>
   \<exists>name p result.
      tr' \<noteq> [] \<and> last tr' = (STT, name) \<and> name \<in> set order \<and> map_of ps name = Some p \<and>
      p (length tr' - 1) rq' = Inr result \<and>
      TranscriptionRequest.provider rq' = name \<and>
      TranscriptionResponse.provider resp = name \<and>
      TranscriptionResponse.text resp = STTResult.text result \<and>
      TranscriptionResponse.confidence resp =
        (case STTResult.confidence result of None \<Rightarrow> 0.8 | Some c \<Rightarrow> c)"
proof (induction order arbitrary: tr rq)
  case Nil
  then show ?case by simp
next
  case (Cons name rest)
  show ?case
  proof (cases "map_of ps name")
    case None
    with Cons.prems have "speech_fallback_loop ps tr rq rest = (Inr resp, rq', tr')"
      by simp
    from Cons.IH [OF this] show ?thesis by auto
  next
    case (Some p)
    show ?thesis
    proof (cases "name = TranscriptionRequest.provider rq")
      case True
      with Cons.prems Some have "speech_fallback_loop ps tr rq rest = (Inr resp, rq', tr')"
        by simp
      from Cons.IH [OF this] show ?thesis by auto
    next
      case False
      define rq1 where "rq1 = rq\<lparr>TranscriptionRequest.provider := name\<rparr>"
      show ?thesis
      proof (cases "speech_attempt p (length tr) rq1 0.8")
        case None
        with Cons.prems Some False
        have "speech_fallback_loop ps (tr @ [(STT, name)]) rq1 rest = (Inr resp, rq', tr')"
          by (simp add: rq1_def Let_def)
        from Cons.IH [OF this] show ?thesis by auto
      next
        case (Some resp1)
        with Cons.prems \<open>map_of ps name = Some p\<close> False
        have eq: "resp1 = resp" "rq' = rq1" "tr' = tr @ [(STT, name)]"
          by (auto simp: rq1_def Let_def)
        from Some obtain result where
          "p (length tr) rq1 = Inr result"
          "TranscriptionResponse.text resp1 = STTResult.text result"
          "TranscriptionResponse.confidence resp1 =
             (case STTResult.confidence result of None \<Rightarrow> 0.8 | Some c \<Rightarrow> c)"
          "TranscriptionResponse.provider resp1 = TranscriptionRequest.provider rq1"
          by (auto simp: speech_attempt_def split: sum.splits option.splits)
        with eq \<open>map_of ps name = Some p\<close> show ?thesis
          by (intro exI [of _ name] exI [of _ p] exI [of _ result]) (simp add: rq1_def)
      qed
    qed
  qed
qed

lemma speech_attempt_raises:
  "p t rq = Inl e \<Longrightarrow> speech_attempt p t rq c = None"
  by (simp add: speech_attempt_def)









section \<open>Lemmas on the pipeline\<close>

lemma send_message_fields [simp]:
  "settings (send_message st sid ev) = settings st"
  "active_connections (send_message st sid ev) = active_connections st"
  "active_sessions (send_message st sid ev) = active_sessions st"
  "calls (send_message st sid ev) = calls st"
  by (simp_all add: send_message_def)

lemma send_message_sent:
  "sent (send_message st sid ev) =
     (if sid \<in> active_connections st then sent st @ [(sid, ev)] else sent st)"
  by (simp add: send_message_def)

lemma pipeline_error_fields [simp]:
  "settings (pipeline_error st sid e) = settings st"
  "active_connections (pipeline_error st sid e) = active_connections st"
  "active_sessions (pipeline_error st sid e) = active_sessions st"
  "calls (pipeline_error st sid e) = calls st"
  by (simp_all add: pipeline_error_def send_error_def)

lemma pipeline_error_sent:
  "sent (pipeline_error st sid e) =
     (if sid \<in> active_connections st
      then sent st @ [(sid, ErrorEvent (py ''Pipeline error'') (str_of_exn e))] else sent st)"
  by (simp add: pipeline_error_def send_error_def send_message_sent)

lemma send_message_calls_update:
  "send_message (st\<lparr>calls := tr\<rparr>) sid ev = (send_message st sid ev)\<lparr>calls := tr\<rparr>"
  by (simp add: send_message_def)

lemma process_audio_chunk_stages:
  assumes "active_sessions st sid = Some session" and "data = Some audio" and "audio \<noteq> []"
  shows "process_audio_chunk svc st sid data =
    (case transcribe (stt_service svc) (calls st) (chunk_transcription_request st session audio) of
       (Inl e, rq, tr) \<Rightarrow> pipeline_error (st\<lparr>calls := tr\<rparr>) sid e
     | (Inr transcription, rq, tr) \<Rightarrow>
         let st1 = send_message (st\<lparr>calls := tr\<rparr>) sid (transcription_event transcription)
         in if strip (TranscriptionResponse.text transcription) = [] then st1
            else if InterviewSession.source_language session \<noteq>
                    InterviewSession.target_language session
            then (case translate (translation_service svc) tr
                         (chunk_translation_request st session transcription) of
                    (Inl e, rq, tr2) \<Rightarrow> pipeline_error (st1\<lparr>calls := tr2\<rparr>) sid e
                  | (Inr translation, rq, tr2) \<Rightarrow>
                      answer_stage svc session
                        (send_message (st1\<lparr>calls := tr2\<rparr>) sid (translation_event translation))
                        sid (TranslationResponse.translated_text translation))
            else answer_stage svc session st1 sid (TranscriptionResponse.text transcription))"
  using assms
  by (simp add: process_audio_chunk_def chunk_transcription_request_def
      chunk_translation_request_def chunk_answer_request_def transcription_event_def
      translation_event_def answer_event_def pipeline_error_def answer_stage_def Let_def
      split: prod.splits sum.splits)






lemma answer_stage_appends:
  "\<exists>evs. sent (answer_stage svc session st1 sid q) = sent st1 @ evs"
  by (auto simp: answer_stage_def send_message_sent pipeline_error_sent split: prod.splits sum.splits)

lemma transcription_frame_first:
  assumes "active_sessions st sid = Some session" and "sid \<in> active_connections st"
    and "data = Some audio" and "audio \<noteq> []"
    and "transcribe (stt_service svc) (calls st) (chunk_transcription_request st session audio) =
         (Inr transcription, rq, tr)"
  shows "\<exists>evs. sent (process_audio_chunk svc st sid data) =
           sent st @ (sid, transcription_event transcription) # evs"
proof -
  let ?st1 = "send_message (st\<lparr>calls := tr\<rparr>) sid (transcription_event transcription)"
  have s1: "sent ?st1 = sent st @ [(sid, transcription_event transcription)]"
    using assms(2) by (simp add: send_message_sent)
  have "\<exists>evs. sent (process_audio_chunk svc st sid data) = sent ?st1 @ evs"
  proof (cases "strip (TranscriptionResponse.text transcription) = []")
    case True
    then show ?thesis
      using assms(5) by (simp add: process_audio_chunk_stages [OF assms(1,3,4)] Let_def)
  next
    case False
    show ?thesis
    proof (cases "InterviewSession.source_language session = InterviewSession.target_language session")
      case True
      then show ?thesis
        using assms(5) False answer_stage_appends [of svc session ?st1 sid]
        by (simp add: process_audio_chunk_stages [OF assms(1,3,4)] Let_def)
    next
      case neq: False
      obtain r rq2 tr2 where t: "translate (translation_service svc) tr
          (chunk_translation_request st session transcription) = (r, rq2, tr2)"
        by (metis prod_cases3)
      show ?thesis
      proof (cases r)
        case (Inl e)
        with t show ?thesis
          using assms(5) False neq
          by (simp add: process_audio_chunk_stages [OF assms(1,3,4)] Let_def pipeline_error_sent)
      next
        case (Inr translation)
        let ?st2 = "send_message (?st1\<lparr>calls := tr2\<rparr>) sid (translation_event translation)"
        from answer_stage_appends [of svc session ?st2 sid
            "TranslationResponse.translated_text translation"]
        obtain evs where "sent (answer_stage svc session ?st2 sid
            (TranslationResponse.translated_text translation)) = sent ?st2 @ evs"
          by blast
        moreover have "sent ?st2 = sent ?st1 @ [(sid, translation_event translation)]"
          using assms(2) by (simp add: send_message_sent)
        ultimately show ?thesis
          using assms(5) False neq t Inr
          by (simp add: process_audio_chunk_stages [OF assms(1,3,4)] Let_def)
      qed
    qed
  qed
  with s1 show ?thesis
    by auto
qed

text \<open>A registry without real adapters, and calls to the mock adapters.\<close>

lemma register_keys: "fst ` set (register c a n ps) \<subseteq> insert n (fst ` set ps)"
  by (auto simp: register_def split: option.splits)

lemma mock_or_registered:
  assumes "fst ` set ps \<subseteq> names" and "\<forall>n \<in> names. map_of (case ps of [] \<Rightarrow> m | _ \<Rightarrow> ps) n = None"
  shows "(case ps of [] \<Rightarrow> m | _ \<Rightarrow> ps) = m"
proof (cases ps)
  case Nil
  then show ?thesis by simp
next
  case (Cons x xs)
  then have "fst x \<in> fst ` set ps"
    by simp
  with assms(1) have "fst x \<in> names"
    by blast
  with assms(2) have "map_of (case ps of [] \<Rightarrow> m | _ \<Rightarrow> ps) (fst x) = None"
    by (rule bspec)
  with Cons show ?thesis
    by simp
qed

lemma register_keys3:
  "fst ` set (register c3 a3 n3 (register c2 a2 n2 (register c1 a1 n1 []))) \<subseteq> {n3, n2, n1}"
proof -
  have "fst ` set (register c1 a1 n1 []) \<subseteq> {n1}"
    using register_keys [of c1 a1 n1 "[]"] by simp
  then have "fst ` set (register c2 a2 n2 (register c1 a1 n1 [])) \<subseteq> {n2, n1}"
    using register_keys [of c2 a2 n2 "register c1 a1 n1 []"] by blast
  then show ?thesis
    using register_keys [of c3 a3 n3 "register c2 a2 n2 (register c1 a1 n1 [])"] by blast
qed

lemma register_keys2:
  "fst ` set (register c2 a2 n2 (register c1 a1 n1 [])) \<subseteq> {n2, n1}"
proof -
  have "fst ` set (register c1 a1 n1 []) \<subseteq> {n1}"
    using register_keys [of c1 a1 n1 "[]"] by simp
  then show ?thesis
    using register_keys [of c2 a2 n2 "register c1 a1 n1 []"] by blast
qed

lemma speech_mock_only:
  assumes "map_of (speech_initialize_providers s env) (py ''openai'') = None"
    and "map_of (speech_initialize_providers s env) (py ''google'') = None"
    and "map_of (speech_initialize_providers s env) (py ''local'') = None"
  shows "speech_initialize_providers s env = [(py ''mock'', MockSTTProvider)]"
proof -
  define ps where "ps =
    register (whisper_module env) (LocalWhisperProvider env) (py ''local'')
      (register (truthy (google_speech_api_key s) \<and> speech_module env)
         (GoogleSTTProvider env) (py ''google'')
         (register (truthy (openai_api_key s) \<and> openai_module env)
            (OpenAISTTProvider env) (py ''openai'') []))"
  have i: "speech_initialize_providers s env =
      (case ps of [] \<Rightarrow> [(py ''mock'', MockSTTProvider)] | _ \<Rightarrow> ps)"
    unfolding speech_initialize_providers_def Let_def ps_def ..
  have "fst ` set ps \<subseteq> {py ''local'', py ''google'', py ''openai''}"
    unfolding ps_def by (rule register_keys3)
  moreover have "\<forall>n \<in> {py ''local'', py ''google'', py ''openai''}.
      map_of (case ps of [] \<Rightarrow> [(py ''mock'', MockSTTProvider)] | _ \<Rightarrow> ps) n = None"
    using assms unfolding i by blast
  ultimately show ?thesis
    unfolding i by (rule mock_or_registered)
qed


lemma translation_mock_only:
  assumes "map_of (translation_initialize_providers s env) (py ''google'') = None"
    and "map_of (translation_initialize_providers s env) (py ''deepl'') = None"
    and "map_of (translation_initialize_providers s env) (py ''google_free'') = None"
  shows "translation_initialize_providers s env =
    [(py ''mock'', MockTranslationProvider (str_upper env))]"
proof -
  define ps where "ps =
    register (googletrans_module env) (GoogleTranslateFreeProvider env) (py ''google_free'')
      (register (truthy (deepl_api_key s) \<and> DeepLTranslator_class env)
         (DeepLProvider env) (py ''deepl'')
         (register (truthy (google_translate_api_key s) \<and> translate_module env)
            (GoogleTranslateProvider env) (py ''google'') []))"
  have i: "translation_initialize_providers s env =
      (case ps of [] \<Rightarrow> [(py ''mock'', MockTranslationProvider (str_upper env))] | _ \<Rightarrow> ps)"
    unfolding translation_initialize_providers_def Let_def ps_def ..
  have "fst ` set ps \<subseteq> {py ''google_free'', py ''deepl'', py ''google''}"
    unfolding ps_def by (rule register_keys3)
  moreover have "\<forall>n \<in> {py ''google_free'', py ''deepl'', py ''google''}.
      map_of (case ps of [] \<Rightarrow> [(py ''mock'', MockTranslationProvider (str_upper env))] | _ \<Rightarrow> ps) n =
        None"
    using assms unfolding i by blast
  ultimately show ?thesis
    unfolding i by (rule mock_or_registered)
qed

lemma ai_mock_only:
  assumes "map_of (ai_initialize_providers s env) (py ''openai'') = None"
    and "map_of (ai_initialize_providers s env) (py ''anthropic'') = None"
  shows "ai_initialize_providers s env = [(py ''mock'', MockAIProvider (str_lower env))]"
proof -
  define ps where "ps =
    register (truthy (anthropic_api_key s) \<and> anthropic_module env)
      (AnthropicProvider env) (py ''anthropic'')
      (register (truthy (openai_api_key s) \<and> openai_module env)
         (OpenAIProvider env) (py ''openai'') [])"
  have i: "ai_initialize_providers s env =
      (case ps of [] \<Rightarrow> [(py ''mock'', MockAIProvider (str_lower env))] | _ \<Rightarrow> ps)"
    unfolding ai_initialize_providers_def Let_def ps_def ..
  have "fst ` set ps \<subseteq> {py ''anthropic'', py ''openai''}"
    unfolding ps_def by (rule register_keys2)
  moreover have "\<forall>n \<in> {py ''anthropic'', py ''openai''}.
      map_of (case ps of [] \<Rightarrow> [(py ''mock'', MockAIProvider (str_lower env))] | _ \<Rightarrow> ps) n = None"
    using assms unfolding i by blast
  ultimately show ?thesis
    unfolding i by (rule mock_or_registered)
qed

lemma MockSTTProvider_returns:
  "\<exists>result. MockSTTProvider t rq = Inr result \<and>
     STTResult.language result =
       Some (if TranscriptionRequest.language rq \<noteq> Some (py ''auto'')
             then TranscriptionRequest.language rq else Some (py ''en''))"
  unfolding MockSTTProvider_def by simp

lemma MockTranslationProvider_returns: "\<exists>result. MockTranslationProvider upper t rq = Inr result"
  unfolding MockTranslationProvider_def Let_def by blast

lemma MockAIProvider_returns: "\<exists>result. MockAIProvider lower t pr rq = Inr result"
  unfolding MockAIProvider_def Let_def by blast

lemma transcribe_mock:
  assumes "TranscriptionRequest.provider rq = py ''mock''"
    and "TranscriptionRequest.language rq \<noteq> None"
  shows "\<exists>response. transcribe [(py ''mock'', MockSTTProvider)] tr rq =
       (Inr response, rq, tr @ [(STT, py ''mock'')]) \<and>
     TranscriptionResponse.provider response = py ''mock''"
proof -
  from MockSTTProvider_returns [of "length tr" rq] obtain result where
    r: "MockSTTProvider (length tr) rq = Inr result"
      "STTResult.language result =
         Some (if TranscriptionRequest.language rq \<noteq> Some (py ''auto'')
               then TranscriptionRequest.language rq else Some (py ''en''))"
    by blast
  from assms(2) obtain l where "TranscriptionRequest.language rq = Some l"
    by blast
  with r assms(1) show ?thesis
    by (auto simp: transcribe_def speech_attempt_def Let_def)
qed

lemma transcribe_not_mock:
  "TranscriptionRequest.provider rq \<noteq> py ''mock'' \<Longrightarrow>
   transcribe [(py ''mock'', MockSTTProvider)] tr rq =
     (Inl (ValueError (py ''Provider '' @ TranscriptionRequest.provider rq @ py '' not available'')),
      rq, tr)"
  by (simp add: transcribe_def)

lemma translate_mock:
  assumes "TranslationRequest.provider rq = py ''mock''"
  shows "\<exists>response. translate [(py ''mock'', MockTranslationProvider upper)] tr rq =
       (Inr response, rq, tr @ [(Translation, py ''mock'')]) \<and>
     TranslationResponse.provider response = py ''mock''"
proof -
  from MockTranslationProvider_returns [of upper "length tr" rq] obtain result where
    "MockTranslationProvider upper (length tr) rq = Inr result"
    by blast
  with assms show ?thesis
    by (simp add: translate_def translation_attempt_def Let_def)
qed

lemma translate_not_mock:
  "TranslationRequest.provider rq \<noteq> py ''mock'' \<Longrightarrow>
   translate [(py ''mock'', MockTranslationProvider upper)] tr rq =
     (Inl (ValueError (py ''Provider '' @ TranslationRequest.provider rq @ py '' not available'')),
      rq, tr)"
  by (simp add: translate_def)

lemma generate_answer_mock:
  assumes "AnswerGenerationRequest.provider rq = py ''mock''"
  shows "\<exists>response.
     generate_answer \<lparr>providers = [(py ''mock'', MockAIProvider lower)], prompts = table\<rparr> tr rq =
       (Inr response, rq, tr @ [(Answer, py ''mock'')]) \<and>
     AnswerGenerationResponse.provider response = py ''mock''"
proof -
  let ?pr = "format_prompt (prompts_get table (AnswerGenerationRequest.style rq)) rq"
  from MockAIProvider_returns [of lower "length tr" ?pr rq] obtain result where
    "MockAIProvider lower (length tr) ?pr rq = Inr result"
    by blast
  with assms show ?thesis
    by (simp add: generate_answer_def ai_call_def Let_def)
qed

lemma generate_answer_not_mock:
  "AnswerGenerationRequest.provider rq \<noteq> py ''mock'' \<Longrightarrow>
   generate_answer \<lparr>providers = [(py ''mock'', MockAIProvider lower)], prompts = table\<rparr> tr rq =
     (Inl (ValueError (py ''Provider '' @ AnswerGenerationRequest.provider rq @
                       py '' not available'')), rq, tr)"
  by (simp add: generate_answer_def)

section \<open>Answer post-processing: length bound, punctuation, fixed points\<close>

text \<open>
  C1, as amended. For every text and every \<open>max_length\<close> the post-processed answer ends
  in one of \<open>.\<close>, \<open>!\<close>, \<open>?\<close>; for every \<open>max_length\<close> of at least 1 it has at most
  \<open>max_length\<close> words. (With \<open>max_length = 0\<close> the answer is the single word \<open>.\<close>.)
\<close>

theorem post_process_answer_punctuated_and_bounded:
  "endswith_any (post_process_answer a n) [ch CHR ''.'', ch CHR ''!'', ch CHR ''?''] \<and>
   (1 \<le> n \<longrightarrow> int (length (split_ws (post_process_answer a n))) \<le> n)"
proof -
  from post_process_shape [of n a] obtain us where
    us: "list_all is_word us" "1 \<le> n \<longrightarrow> int (length us) \<le> n"
      "post_process_answer a n = join_sp us"
      "endswith_any (join_sp us) [ch CHR ''.'', ch CHR ''!'', ch CHR ''?'']"
    by blast
  from us(1) have "split_ws (join_sp us) = us"
    by (rule split_join_all)
  with us show ?thesis
    by simp
qed

theorem post_process_answer_punctuated_and_bounded_witness:
  "(1::int) \<le> 4 \<and>
   post_process_answer (py ''Yes, I would. And gladly so'') 4 = py ''Yes, I would.'' \<and>
   endswith_any (post_process_answer (py ''Yes, I would. And gladly so'') 4)
     [ch CHR ''.'', ch CHR ''!'', ch CHR ''?''] \<and>
   int (length (split_ws (post_process_answer (py ''Yes, I would. And gladly so'') 4))) \<le> 4"
proof -
  have e: "post_process_answer (py ''Yes, I would. And gladly so'') 4 = py ''Yes, I would.''"
    by code_simp
  have h: "(1::int) \<le> 4"
    by simp
  from h e post_process_answer_punctuated_and_bounded [of "py ''Yes, I would. And gladly so''" 4]
  show ?thesis
    by blast
qed

text \<open>
  C1 as stated fails for \<open>max_length = 0\<close>: the answer to \<open>hello\<close> is \<open>.\<close>, which is one
  word.
\<close>

theorem post_process_answer_zero_counterexample:
  "post_process_answer (py ''hello'') 0 = py ''.'' \<and>
   \<not> int (length (split_ws (post_process_answer (py ''hello'') 0))) \<le> 0"
  by code_simp

text \<open>
  C9, as amended. An answer that has no whitespace at either end, no two whitespace
  characters in a row and no whitespace character other than the space, that ends in
  \<open>.\<close>, \<open>!\<close> or \<open>?\<close> and has at most \<open>max_length\<close> words is returned unchanged; and for
  every \<open>max_length\<close> of at least 0, post-processing twice equals post-processing once.
\<close>

theorem post_process_answer_fixed_point:
  "(no_outer_whitespace s \<and> no_space_runs s \<and> only_plain_spaces s \<and>
    endswith_any s [ch CHR ''.'', ch CHR ''!'', ch CHR ''?''] \<and>
    int (length (split_ws s)) \<le> n \<longrightarrow> post_process_answer s n = s) \<and>
   (0 \<le> n \<longrightarrow> post_process_answer (post_process_answer t n) n = post_process_answer t n)"
  using post_process_fixed [of s n] post_process_idem [of n t] by blast

theorem post_process_answer_fixed_point_witness:
  "no_outer_whitespace (py ''It depends.'') \<and> no_space_runs (py ''It depends.'') \<and>
   only_plain_spaces (py ''It depends.'') \<and>
   endswith_any (py ''It depends.'') [ch CHR ''.'', ch CHR ''!'', ch CHR ''?''] \<and>
   int (length (split_ws (py ''It depends.''))) \<le> 2 \<and> (0::int) \<le> 2 \<and>
   post_process_answer (py ''It depends.'') 2 = py ''It depends.'' \<and>
   post_process_answer (py ''  so   many words here'') 2 = py ''so many.'' \<and>
   post_process_answer (post_process_answer (py ''  so   many words here'') 2) 2 =
     post_process_answer (py ''  so   many words here'') 2"
proof -
  have h: "no_outer_whitespace (py ''It depends.'')" "no_space_runs (py ''It depends.'')"
    "only_plain_spaces (py ''It depends.'')"
    "endswith_any (py ''It depends.'') [ch CHR ''.'', ch CHR ''!'', ch CHR ''?'']"
    "int (length (split_ws (py ''It depends.''))) \<le> 2"
    by code_simp+
  have e: "post_process_answer (py ''  so   many words here'') 2 = py ''so many.''"
    by code_simp
  have z: "(0::int) \<le> 2"
    by simp
  from h e z
    post_process_answer_fixed_point [of "py ''It depends.''" 2 "py ''  so   many words here''"]
  show ?thesis
    by blast
qed

text \<open>
  C9 as stated fails twice. The answer \<open>a<TAB>b.\<close> has no whitespace at either end and no
  run of whitespace, ends in a period and has two words, yet the tab becomes a space. And
  with \<open>max_length = -1\<close> every pass drops one more word: \<open>a b c\<close> gives \<open>a b.\<close>, which
  gives \<open>a.\<close>.
\<close>

theorem post_process_answer_fixed_point_counterexample:
  "no_outer_whitespace (py ''a'' @ [9] @ py ''b.'') \<and> no_space_runs (py ''a'' @ [9] @ py ''b.'') \<and>
   endswith_any (py ''a'' @ [9] @ py ''b.'') [ch CHR ''.'', ch CHR ''!'', ch CHR ''?''] \<and>
   int (length (split_ws (py ''a'' @ [9] @ py ''b.''))) \<le> 5 \<and>
   post_process_answer (py ''a'' @ [9] @ py ''b.'') 5 = py ''a b.'' \<and>
   post_process_answer (py ''a'' @ [9] @ py ''b.'') 5 \<noteq> py ''a'' @ [9] @ py ''b.'' \<and>
   post_process_answer (py ''a b c'') (- 1) = py ''a b.'' \<and>
   post_process_answer (post_process_answer (py ''a b c'') (- 1)) (- 1) = py ''a.'' \<and>
   post_process_answer (post_process_answer (py ''a b c'') (- 1)) (- 1) \<noteq>
     post_process_answer (py ''a b c'') (- 1)"
  by code_simp

section \<open>The pipeline: short circuit on blank transcription\<close>

text \<open>
  C3. When the session is open and connected, the chunk carries audio, and the
  speech-to-text service returns a transcription whose text is empty or only whitespace,
  the run sends exactly one frame, the transcription event with that text, and the only
  adapter calls it makes are speech-to-text calls: no translation, answer or error frame
  is sent and neither the translation nor the answer service is called.
\<close>

theorem blank_transcription_short_circuits:
  assumes "active_sessions st sid = Some session" and "sid \<in> active_connections st"
    and "data = Some audio" and "audio \<noteq> []"
    and "transcribe (stt_service svc) (calls st) (chunk_transcription_request st session audio) =
         (Inr transcription, rq, tr)"
    and "strip (TranscriptionResponse.text transcription) = []"
  shows "sent (process_audio_chunk svc st sid data) =
           sent st @ [(sid, TranscriptionEvent (TranscriptionResponse.text transcription)
                             (TranscriptionResponse.confidence transcription)
                             (TranscriptionResponse.language transcription))] \<and>
         (\<exists>cs. calls (process_audio_chunk svc st sid data) = calls st @ cs \<and>
               (\<forall>c \<in> set cs. fst c = STT))"
proof -
  have "process_audio_chunk svc st sid data =
      send_message (st\<lparr>calls := tr\<rparr>) sid (transcription_event transcription)"
    using assms(5,6) by (simp add: process_audio_chunk_stages [OF assms(1,3,4)] Let_def)
  moreover from transcribe_effect [OF assms(5)] have "\<exists>cs. tr = calls st @ cs \<and> (\<forall>c \<in> set cs. fst c = STT)"
    by blast
  ultimately show ?thesis
    using assms(2) by (simp add: send_message_sent transcription_event_def)
qed

text \<open>A run in which the adapter returns three spaces, in a session from \<open>en\<close> to \<open>zh\<close>.\<close>

theorem blank_transcription_short_circuits_witness:
  "sent (process_audio_chunk
      (example_services [(py ''openai'', fake_stt (py ''   '') (Some 0.9) (py ''en''))]
         [(py ''google'', fake_translation (py ''x''))] [(py ''openai'', fake_ai (py ''y''))])
      (example_state (py ''en'') (py ''zh'')) (py ''s1'') (Some (py ''UklGRg==''))) =
     [(py ''s1'', TranscriptionEvent (py ''   '') 0.9 (py ''en''))] \<and>
   calls (process_audio_chunk
      (example_services [(py ''openai'', fake_stt (py ''   '') (Some 0.9) (py ''en''))]
         [(py ''google'', fake_translation (py ''x''))] [(py ''openai'', fake_ai (py ''y''))])
      (example_state (py ''en'') (py ''zh'')) (py ''s1'') (Some (py ''UklGRg==''))) =
     [(STT, py ''openai'')]"
proof -
  let ?svc = "example_services [(py ''openai'', fake_stt (py ''   '') (Some 0.9) (py ''en''))]
         [(py ''google'', fake_translation (py ''x''))] [(py ''openai'', fake_ai (py ''y''))]"
  let ?st = "example_state (py ''en'') (py ''zh'')"
  let ?session = "example_session (py ''en'') (py ''zh'')"
  let ?t = "\<lparr>TranscriptionResponse.text = py ''   '', TranscriptionResponse.confidence = 0.9,
      TranscriptionResponse.language = py ''en'', TranscriptionResponse.provider = py ''openai''\<rparr>"
  have h1: "active_sessions ?st (py ''s1'') = Some ?session"
    by (simp add: example_state_def)
  have h2: "py ''s1'' \<in> active_connections ?st"
    by (simp add: example_state_def)
  have h3: "Some (py ''UklGRg=='') = Some (py ''UklGRg=='')" "py ''UklGRg=='' \<noteq> []"
    by simp_all
  have h4: "transcribe (stt_service ?svc) (calls ?st)
      (chunk_transcription_request ?st ?session (py ''UklGRg=='')) =
      (Inr ?t, chunk_transcription_request ?st ?session (py ''UklGRg==''), [(STT, py ''openai'')])"
    by (simp add: transcribe_def speech_attempt_def fake_stt_def chunk_transcription_request_def
        example_state_def example_settings_def example_services_def)
  have h5: "strip (TranscriptionResponse.text ?t) = []"
    by (simp add: strip_def isspace_def)
  have s0: "sent ?st = []" "calls ?st = []"
    by (simp_all add: example_state_def)
  have c: "calls (process_audio_chunk ?svc ?st (py ''s1'') (Some (py ''UklGRg==''))) =
      [(STT, py ''openai'')]"
    by code_simp
  from blank_transcription_short_circuits [OF h1 h2 h3 h4 h5] c show ?thesis
    unfolding s0 by simp
qed

section \<open>The pipeline: a capability whose providers all fail\<close>



section \<open>The pipeline: transcription through a fallback provider\<close>

text \<open>
  C5, as amended. In a run on an open, connected session in which the configured
  speech-to-text adapter raises and the fallback loop returns a response, the response is
  labelled with the name of the adapter called last, which is the one that succeeded; its
  confidence is the confidence that adapter reported, or 0.8 when it reported none, so it
  is at most 0.9 exactly when the adapter reported none or reported at most 0.9; and the
  first frame the run sends is the transcription event with the text, confidence and
  language of that response (the event has no provider field).
\<close>

theorem fallback_transcription_event:
  assumes "active_sessions st sid = Some session" and "sid \<in> active_connections st"
    and "data = Some audio" and "audio \<noteq> []"
    and "map_of (stt_service svc) (Settings.stt_provider (settings st)) = Some primary"
    and "primary (length (calls st)) (chunk_transcription_request st session audio) = Inl e"
    and "speech_try_fallback (stt_service svc)
           (calls st @ [(STT, Settings.stt_provider (settings st))])
           (chunk_transcription_request st session audio) = (Inr response, rq, tr)"
  shows "\<exists>name p result.
           last tr = (STT, name) \<and> map_of (stt_service svc) name = Some p \<and>
           p (length tr - 1) rq = Inr result \<and>
           TranscriptionResponse.provider response = name \<and>
           TranscriptionResponse.confidence response =
             (case STTResult.confidence result of None \<Rightarrow> 0.8 | Some c \<Rightarrow> c) \<and>
           (TranscriptionResponse.confidence response \<le> 0.9 \<longleftrightarrow>
              (\<forall>c. STTResult.confidence result = Some c \<longrightarrow> c \<le> 0.9)) \<and>
           (\<exists>evs. sent (process_audio_chunk svc st sid data) =
              sent st @ (sid, TranscriptionEvent (TranscriptionResponse.text response)
                                (TranscriptionResponse.confidence response)
                                (TranscriptionResponse.language response)) # evs)"
proof -
  let ?rq = "chunk_transcription_request st session audio"
  have p: "TranscriptionRequest.provider ?rq = Settings.stt_provider (settings st)"
    by (simp add: chunk_transcription_request_def)
  from assms(6) have "speech_attempt primary (length (calls st)) ?rq 0.9 = None"
    by (rule speech_attempt_raises)
  with assms(5,7) p have t: "transcribe (stt_service svc) (calls st) ?rq = (Inr response, rq, tr)"
    by (simp add: transcribe_def Let_def)
  from transcription_frame_first [OF assms(1-4) t]
  have ev: "\<exists>evs. sent (process_audio_chunk svc st sid data) =
      sent st @ (sid, TranscriptionEvent (TranscriptionResponse.text response)
                        (TranscriptionResponse.confidence response)
                        (TranscriptionResponse.language response)) # evs"
    by (simp add: transcription_event_def)
  from assms(7) speech_fallback_loop_success [of "stt_service svc" _ ?rq _ response rq tr]
  obtain name p result where
    r: "last tr = (STT, name)" "map_of (stt_service svc) name = Some p"
      "p (length tr - 1) rq = Inr result" "TranscriptionResponse.provider response = name"
      "TranscriptionResponse.confidence response =
         (case STTResult.confidence result of None \<Rightarrow> 0.8 | Some c \<Rightarrow> c)"
    unfolding speech_try_fallback_def by blast
  from r(5) have "TranscriptionResponse.confidence response \<le> 0.9 \<longleftrightarrow>
      (\<forall>c. STTResult.confidence result = Some c \<longrightarrow> c \<le> 0.9)"
    by (cases "STTResult.confidence result") simp_all
  with r ev show ?thesis
    by blast
qed

text \<open>
  C5 as stated fails when the fallback adapter reports a confidence above 0.9: the primary
  \<open>openai\<close> raises, the fallback \<open>google\<close> reports 0.97, and the event carries 0.97.
\<close>

theorem fallback_confidence_counterexample:
  "failing 0 (chunk_transcription_request (example_state (py ''en'') (py ''en''))
      (example_session (py ''en'') (py ''en'')) (py ''UklGRg=='')) =
     (Inl (py ''connection refused'') :: str + STTResult) \<and>
   sent (process_audio_chunk
      (example_services
         [(py ''openai'', failing), (py ''google'', fake_stt (py ''Hello'') (Some 0.97) (py ''en''))]
         [(py ''google'', fake_translation (py ''Bonjour''))] [(py ''openai'', fake_ai (py ''Hi''))])
      (example_state (py ''en'') (py ''en'')) (py ''s1'') (Some (py ''UklGRg==''))) =
     [(py ''s1'', TranscriptionEvent (py ''Hello'') 0.97 (py ''en'')),
      (py ''s1'', AnswerEvent (py ''Hello'') (py ''Hi.'') 0.9 (py ''professional''))] \<and>
   calls (process_audio_chunk
      (example_services
         [(py ''openai'', failing), (py ''google'', fake_stt (py ''Hello'') (Some 0.97) (py ''en''))]
         [(py ''google'', fake_translation (py ''Bonjour''))] [(py ''openai'', fake_ai (py ''Hi''))])
      (example_state (py ''en'') (py ''en'')) (py ''s1'') (Some (py ''UklGRg==''))) =
     [(STT, py ''openai''), (STT, py ''google''), (Answer, py ''openai'')] \<and>
   \<not> (0.97 :: rat) \<le> 0.9"
  by code_simp

text \<open>A run in which \<open>openai\<close> raises and \<open>google\<close> answers without a confidence.\<close>

theorem fallback_transcription_event_witness:
  "\<exists>name p result.
     last [(STT, py ''openai''), (STT, py ''google'')] = (STT, name) \<and>
     map_of [(py ''openai'', failing), (py ''google'', fake_stt (py ''Hello'') None (py ''en''))] name =
       Some p \<and>
     p 1 \<lparr>TranscriptionRequest.audio_data = py ''UklGRg=='',
          TranscriptionRequest.language = Some (py ''en''),
          TranscriptionRequest.provider = py ''google''\<rparr> = Inr result \<and>
     name = py ''google'' \<and>
     (0.8 :: rat) = (case STTResult.confidence result of None \<Rightarrow> 0.8 | Some c \<Rightarrow> c) \<and>
     ((0.8 :: rat) \<le> 0.9 \<longleftrightarrow> (\<forall>c. STTResult.confidence result = Some c \<longrightarrow> c \<le> 0.9)) \<and>
     (\<exists>evs. sent (process_audio_chunk
         (example_services
            [(py ''openai'', failing), (py ''google'', fake_stt (py ''Hello'') None (py ''en''))]
            [(py ''google'', fake_translation (py ''Bonjour''))] [(py ''openai'', fake_ai (py ''Hi''))])
         (example_state (py ''en'') (py ''en'')) (py ''s1'') (Some (py ''UklGRg==''))) =
       [] @ (py ''s1'', TranscriptionEvent (py ''Hello'') 0.8 (py ''en'')) # evs)"
proof -
  let ?audio = "py ''UklGRg==''"
  let ?svc = "example_services
            [(py ''openai'', failing), (py ''google'', fake_stt (py ''Hello'') None (py ''en''))]
            [(py ''google'', fake_translation (py ''Bonjour''))] [(py ''openai'', fake_ai (py ''Hi''))]"
  let ?st = "example_state (py ''en'') (py ''en'')"
  let ?session = "example_session (py ''en'') (py ''en'')"
  let ?response = "\<lparr>TranscriptionResponse.text = py ''Hello'', TranscriptionResponse.confidence = 0.8,
      TranscriptionResponse.language = py ''en'', TranscriptionResponse.provider = py ''google''\<rparr>"
  let ?rq = "\<lparr>TranscriptionRequest.audio_data = ?audio,
          TranscriptionRequest.language = Some (py ''en''),
          TranscriptionRequest.provider = py ''google''\<rparr>"
  have h1: "active_sessions ?st (py ''s1'') = Some ?session"
    and h2: "py ''s1'' \<in> active_connections ?st"
    and h3: "Some ?audio = Some ?audio" and h4: "?audio \<noteq> []"
    by (simp_all add: example_state_def)
  have h5: "map_of (stt_service ?svc) (Settings.stt_provider (settings ?st)) = Some failing"
    by (simp add: example_services_def example_state_def example_settings_def)
  have h6: "failing (length (calls ?st)) (chunk_transcription_request ?st ?session ?audio) =
      Inl (py ''connection refused'')"
    by (simp add: failing_def)
  have h7: "speech_try_fallback (stt_service ?svc)
      (calls ?st @ [(STT, Settings.stt_provider (settings ?st))])
      (chunk_transcription_request ?st ?session ?audio) =
      (Inr ?response, ?rq, [(STT, py ''openai''), (STT, py ''google'')])"
    by (simp add: speech_try_fallback_def speech_attempt_def fake_stt_def failing_def
        chunk_transcription_request_def example_services_def example_state_def
        example_settings_def example_session_def)
  have s: "sent ?st = []" "stt_service ?svc =
      [(py ''openai'', failing), (py ''google'', fake_stt (py ''Hello'') None (py ''en''))]"
    by (simp_all add: example_state_def example_services_def)
  from fallback_transcription_event [OF h1 h2 h3 h4 h5 h6 h7] show ?thesis
    unfolding s by simp
qed

section \<open>The services: what fallback does to the request\<close>



section \<open>Evaluations of the code at inputs where it departs from the specification\<close>

text \<open>
  C2. A session from \<open>en-US\<close> to \<open>en\<close>: the detected language \<open>en-US\<close> and the target
  \<open>en\<close> have the same base subtag, and \<open>is_translation_needed\<close> says no translation is
  needed, yet the run calls the translation adapter and sends a translation event,
  because \<open>process_audio_chunk\<close> compares the session's two language strings.
\<close>

theorem pipeline_translates_same_base_language:
  "base_subtag (py ''en-US'') = base_subtag (py ''en'') \<and>
   \<not> is_translation_needed (py ''en-US'') (py ''en'') \<and>
   calls (process_audio_chunk
      (example_services [(py ''openai'', fake_stt (py ''Hello'') None (py ''en-US''))]
         [(py ''google'', fake_translation (py ''Hello''))] [(py ''openai'', fake_ai (py ''Hi''))])
      (example_state (py ''en-US'') (py ''en'')) (py ''s1'') (Some (py ''UklGRg==''))) =
     [(STT, py ''openai''), (Translation, py ''google''), (Answer, py ''openai'')] \<and>
   sent (process_audio_chunk
      (example_services [(py ''openai'', fake_stt (py ''Hello'') None (py ''en-US''))]
         [(py ''google'', fake_translation (py ''Hello''))] [(py ''openai'', fake_ai (py ''Hi''))])
      (example_state (py ''en-US'') (py ''en'')) (py ''s1'') (Some (py ''UklGRg==''))) =
     [(py ''s1'', TranscriptionEvent (py ''Hello'') 0.9 (py ''en-US'')),
      (py ''s1'', TranslationEvent (py ''Hello'') (py ''Hello'') (py ''en-US'') (py ''en'') 0.9),
      (py ''s1'', AnswerEvent (py ''Hello'') (py ''Hi.'') 0.9 (py ''professional''))]"
  by code_simp

text \<open>
  C4. With \<open>openai\<close>, \<open>google\<close> and \<open>local\<close> registered and \<open>openai\<close> the failed
  primary: after the fallback \<open>local\<close> has failed, the loop calls \<open>openai\<close> again
  before \<open>google\<close>, because \<open>request.provider\<close> by then names \<open>local\<close>. When that
  second call succeeds its result is returned, although \<open>google\<close> is the first healthy
  fallback other than the primary.
\<close>

theorem fallback_retries_failed_primary:
  "snd (snd (transcribe
      [(py ''openai'', failing), (py ''google'', failing), (py ''local'', failing)] []
      \<lparr>TranscriptionRequest.audio_data = py ''UklGRg=='',
       TranscriptionRequest.language = Some (py ''en''),
       TranscriptionRequest.provider = py ''openai''\<rparr>)) =
     [(STT, py ''openai''), (STT, py ''local''), (STT, py ''openai''), (STT, py ''google'')] \<and>
   fst (transcribe
      [(py ''openai'', failing_before 2 (fake_stt (py ''from openai'') None (py ''en''))),
       (py ''google'', fake_stt (py ''from google'') None (py ''en'')), (py ''local'', failing)] []
      \<lparr>TranscriptionRequest.audio_data = py ''UklGRg=='',
       TranscriptionRequest.language = Some (py ''en''),
       TranscriptionRequest.provider = py ''openai''\<rparr>) =
     Inr \<lparr>TranscriptionResponse.text = py ''from openai'', TranscriptionResponse.confidence = 0.8,
          TranscriptionResponse.language = py ''en'',
          TranscriptionResponse.provider = py ''openai''\<rparr> \<and>
   snd (snd (transcribe
      [(py ''openai'', failing_before 2 (fake_stt (py ''from openai'') None (py ''en''))),
       (py ''google'', fake_stt (py ''from google'') None (py ''en'')), (py ''local'', failing)] []
      \<lparr>TranscriptionRequest.audio_data = py ''UklGRg=='',
       TranscriptionRequest.language = Some (py ''en''),
       TranscriptionRequest.provider = py ''openai''\<rparr>)) =
     [(STT, py ''openai''), (STT, py ''local''), (STT, py ''openai'')]"
  by code_simp

end
